theory Spec2Isabelle
  imports Complex_Main "HOL-Library.Sublist"
begin

section \<open>Platform values\<close>

text \<open>
  JavaScript strings are modelled as \<open>string\<close>: one \<open>char\<close> per code unit. Every
  string literal of the sources has code units below 256 (ASCII and the accented
  letters of Latin-1), so each fits one \<open>char\<close>; an accented letter is written with
  its code, \<open>CHR 0xE9\<close> for e-acute and \<open>CHR 0xEA\<close> for e-circumflex.
  A JavaScript \<open>number\<close> is modelled as a rational: the finite doubles are rationals,
  and no property below does arithmetic on one.
\<close>

text \<open>
  A call of a platform function either returns or throws. The sources catch every
  exception without looking at it, so \<open>Throw\<close> carries no payload.
\<close>

datatype 'a completion = Throw | Normal 'a

text \<open>\<open>s.includes(t)\<close> of \<open>String.prototype\<close>: \<open>t\<close> occurs in \<open>s\<close> as a contiguous run.\<close>

fun str_includes :: "string \<Rightarrow> string \<Rightarrow> bool" where
  "str_includes [] t = (t = [])"
| "str_includes (x # xs) t = (prefix t (x # xs) \<or> str_includes xs t)"

text \<open>\<open>s.endsWith(t)\<close>: the reading of "a URL ending in the extension".\<close>

definition endsWith :: "string \<Rightarrow> string \<Rightarrow> bool" where
  "endsWith s t = suffix t s"

text \<open>The value \<open>x || y\<close> where \<open>x\<close> and \<open>y\<close> are objects or \<open>undefined\<close>.\<close>

fun or_else :: "'a option \<Rightarrow> 'a option \<Rightarrow> 'a option" where
  "or_else (Some x) y = Some x"
| "or_else None y = y"

section \<open>types.ts\<close>

text \<open>
  The interface \<open>Channel\<close>. The optional fields \<open>rating?\<close> and \<open>isFavorite?\<close> are
  options: \<open>None\<close> is the absent field, which reads as \<open>undefined\<close>.
  (\<open>id\<close> is written \<open>idC\<close>, \<open>id\<close> being the identity function of HOL.)
\<close>

record channel =
  idC :: string
  name :: string
  category :: string
  description :: string
  videoUrl :: string
  thumbnail :: string
  currentProgram :: string
  rating :: "rat option"
  isFavorite :: "bool option"

text \<open>Truthiness of a \<open>boolean | undefined\<close>: what \<open>c.isFavorite ? _ : _\<close> and \<open>!c.isFavorite\<close> test.\<close>

fun truthy :: "bool option \<Rightarrow> bool" where
  "truthy (Some b) = b"
| "truthy None = False"

datatype ConnectionState = DISCONNECTED | CONNECTING | CONNECTED | ERROR

section \<open>constants.ts\<close>

definition LIVE_STREAM_URL :: string where
  "LIVE_STREAM_URL = ''https://live20.bozztv.com/akamaissh101/ssh101/evtele2xrdc/playlist.m3u8''"

definition DEFAULT_CHANNELS :: "channel list" where
  "DEFAULT_CHANNELS =
    [ \<lparr> idC = ''live1'', name = ''MJ TV Info'', category = ''Information'',
        description = ''Diffusion en direct.'', videoUrl = LIVE_STREAM_URL,
        thumbnail = ''https://picsum.photos/id/1018/400/225'',
        currentProgram = ''Le Journal'', rating = Some 4.9, isFavorite = Some True \<rparr>,
      \<lparr> idC = ''nature1'', name = ''Nature Zen'', category = ''Documentaire'',
        description = ''Paysages apaisants et vie sauvage en haute d'' @ [CHR 0xE9] @ ''finition.'',
        videoUrl = LIVE_STREAM_URL,
        thumbnail = ''https://picsum.photos/id/1018/400/225'',
        currentProgram = ''Merveilles de la For'' @ [CHR 0xEA] @ ''t'',
        rating = Some 4.5, isFavorite = None \<rparr>,
      \<lparr> idC = ''cine1'', name = ''Cin'' @ [CHR 0xE9] @ '' Classique'',
        category = ''Cin'' @ [CHR 0xE9] @ ''ma'',
        description = ''Les grands classiques du cin'' @ [CHR 0xE9] @ ''ma d'' @ [CHR 0x27] @ ''animation.'',
        videoUrl = LIVE_STREAM_URL,
        thumbnail = ''https://picsum.photos/id/1025/400/225'',
        currentProgram = ''Le Grand Lapin'', rating = Some 3.8, isFavorite = None \<rparr>,
      \<lparr> idC = ''toon1'', name = ''Toon TV'', category = ''Enfants'',
        description = ''Dessins anim'' @ [CHR 0xE9] @ ''s et aventures pour les plus jeunes.'',
        videoUrl = LIVE_STREAM_URL,
        thumbnail = ''https://picsum.photos/id/1040/400/225'',
        currentProgram = ''La Qu'' @ [CHR 0xEA] @ ''te du Dragon'',
        rating = Some 4.2, isFavorite = None \<rparr>,
      \<lparr> idC = ''sport1'', name = ''Sport Extr'' @ [CHR 0xEA] @ ''me'', category = ''Sport'',
        description = ''Adr'' @ [CHR 0xE9] @ ''naline pure et comp'' @ [CHR 0xE9] @ ''titions de haut niveau.'',
        videoUrl = LIVE_STREAM_URL,
        thumbnail = ''https://picsum.photos/id/1035/400/225'',
        currentProgram = ''Championnat de Glisse'', rating = Some 4.7, isFavorite = None \<rparr> ]"

section \<open>The browser's localStorage\<close>

text \<open>
  \<open>localStorage\<close> maps keys to strings. Its calls can throw: every access does where
  the browser denies storage to the page (\<open>readable\<close> is false), and \<open>setItem\<close> does
  where the quota is exhausted (\<open>writable\<close> is false). \<open>DBService\<close> guards its calls
  with \<open>try\<close>/\<open>catch\<close>, so both outcomes are branches of it; \<open>AuthService\<close> does not,
  and an exception there leaves the function.
\<close>

record storage =
  items :: "string \<rightharpoonup> string"
  readable :: bool
  writable :: bool

definition getItem :: "storage \<Rightarrow> string \<Rightarrow> string option completion" where
  "getItem st k = (if readable st then Normal (items st k) else Throw)"

definition setItem :: "storage \<Rightarrow> string \<Rightarrow> string \<Rightarrow> storage completion" where
  "setItem st k v =
     (if readable st \<and> writable st then Normal (st\<lparr>items := (items st)(k \<mapsto> v)\<rparr>) else Throw)"

definition removeItem :: "storage \<Rightarrow> string \<Rightarrow> storage completion" where
  "removeItem st k =
     (if readable st then Normal (st\<lparr>items := (items st)(k := None)\<rparr>) else Throw)"

section \<open>services/auth.ts\<close>

definition AUTH_KEY :: string where
  "AUTH_KEY = ''gemini_tv_auth''"

text \<open>\<open>AuthService.login\<close>: the new storage and the returned boolean, or the exception of \<open>setItem\<close>.\<close>

definition login :: "string \<Rightarrow> storage \<Rightarrow> (storage \<times> bool) completion" where
  "login password st =
     (if password = ''admin''
      then (case setItem st AUTH_KEY ''true'' of
              Throw \<Rightarrow> Throw
            | Normal st' \<Rightarrow> Normal (st', True))
      else Normal (st, False))"

definition logout :: "storage \<Rightarrow> storage completion" where
  "logout st = removeItem st AUTH_KEY"

definition isAuthenticated :: "storage \<Rightarrow> bool completion" where
  "isAuthenticated st =
     (case getItem st AUTH_KEY of
        Throw \<Rightarrow> Throw
      | Normal v \<Rightarrow> Normal (v = Some ''true''))"

section \<open>components/LoginModal.tsx\<close>

text \<open>
  The component state of \<open>LoginModal\<close>, and \<open>succeeded\<close> for the call of the
  \<open>onSuccess\<close> property. The red frame and the line "Mot de passe incorrect" are
  rendered exactly when \<open>error\<close> is true.
\<close>

record login_modal =
  password :: string
  error :: bool
  isLoading :: bool
  shake :: bool
  succeeded :: bool

definition LoginModal_initial :: login_modal where
  "LoginModal_initial =
     \<lparr> password = ''admin'', error = False, isLoading = False, shake = False, succeeded = False \<rparr>"

definition error_indicator :: "login_modal \<Rightarrow> bool" where
  "error_indicator m = error m"

text \<open>
  \<open>handleSubmit\<close>. The empty password returns at once. An exception of
  \<open>AuthService.login\<close> is not caught: it leaves the handler after \<open>setIsLoading(true)\<close>
  and \<open>setError(false)\<close>, which is the state returned with \<open>Throw\<close> here.
\<close>

definition handleSubmit :: "login_modal \<times> storage \<Rightarrow> (login_modal \<times> storage) completion" where
  "handleSubmit = (\<lambda>(m, st).
     if password m = [] then Normal (m, st)
     else
       let m1 = m\<lparr>isLoading := True, error := False\<rparr> in
       (case login (password m) st of
          Throw \<Rightarrow> Throw
        | Normal (st', True) \<Rightarrow> Normal (m1\<lparr>succeeded := True\<rparr>, st')
        | Normal (st', False) \<Rightarrow>
            Normal (m1\<lparr>error := True, shake := True, isLoading := False, password := []\<rparr>, st')))"

section \<open>services/db.ts\<close>

definition STORAGE_KEY :: string where
  "STORAGE_KEY = ''mj_tv_data_v2''"

definition JSON_SOURCE :: string where
  "JSON_SOURCE = ''channels.json''"

text \<open>
  What \<open>DBService\<close> sees of a value that \<open>JSON.parse\<close> or \<open>response.json()\<close> returned:
  \<open>Array.isArray\<close> of it and, for an array, its elements, which the source takes
  as \<open>Channel\<close> records by its type annotation, without a check.
\<close>

datatype parsed = Arr "channel list" | NonArr

text \<open>
  \<open>JSON.stringify\<close> and \<open>JSON.parse\<close> are functions of the platform and parameters
  of the model. \<open>JSON.parse\<close> throws on a text that is not JSON.
\<close>

record json_api =
  JSON_stringify :: "channel list \<Rightarrow> string"
  JSON_parse :: "string \<Rightarrow> parsed completion"

text \<open>
  The result of \<open>fetch\<close>: the promise rejects (\<open>Throw\<close>) or resolves to a response
  with its \<open>ok\<close> flag and the outcome of \<open>response.json()\<close>.
\<close>

record response =
  ok :: bool
  json :: "parsed completion"

type_synonym fetch_api = "string \<Rightarrow> response completion"

text \<open>Lines 20 to 30 of \<open>init\<close>: the collection found in \<open>storedData\<close>, if any.\<close>

definition init_stored :: "json_api \<Rightarrow> string option \<Rightarrow> channel list option" where
  "init_stored J storedData =
     (case storedData of
        None \<Rightarrow> None
      | Some s \<Rightarrow>
          if s = [] then None
          else (case JSON_parse J s of
                  Throw \<Rightarrow> None
                | Normal NonArr \<Rightarrow> None
                | Normal (Arr p) \<Rightarrow> if length p > 0 then Some p else None))"

text \<open>
  Lines 34 to 45 of \<open>init\<close>: the inner \<open>try\<close> around the fetch. Its \<open>catch\<close> also
  catches an exception of the \<open>setItem\<close> in it.
\<close>

definition init_fetch :: "json_api \<Rightarrow> fetch_api \<Rightarrow> storage \<Rightarrow> (storage \<times> channel list) option" where
  "init_fetch J fetch st =
     (case fetch JSON_SOURCE of
        Throw \<Rightarrow> None
      | Normal r \<Rightarrow>
          if ok r then
            (case json r of
               Throw \<Rightarrow> None
             | Normal NonArr \<Rightarrow> None
             | Normal (Arr cs) \<Rightarrow>
                 if length cs > 0 then
                   (case setItem st STORAGE_KEY (JSON_stringify J cs) of
                      Throw \<Rightarrow> None
                    | Normal st' \<Rightarrow> Some (st', cs))
                 else None)
          else None)"

text \<open>Lines 17 to 50 of \<open>init\<close>: the body of the outer \<open>try\<close>.\<close>

definition init_try :: "json_api \<Rightarrow> fetch_api \<Rightarrow> storage \<Rightarrow> (storage \<times> channel list) completion" where
  "init_try J fetch st =
     (case getItem st STORAGE_KEY of
        Throw \<Rightarrow> Throw
      | Normal storedData \<Rightarrow>
          (case init_stored J storedData of
             Some p \<Rightarrow> Normal (st, p)
           | None \<Rightarrow>
               (case init_fetch J fetch st of
                  Some r \<Rightarrow> Normal r
                | None \<Rightarrow>
                    (case setItem st STORAGE_KEY (JSON_stringify J DEFAULT_CHANNELS) of
                       Throw \<Rightarrow> Throw
                     | Normal st' \<Rightarrow> Normal (st', DEFAULT_CHANNELS)))))"

text \<open>\<open>DBService.init\<close>: the outer \<open>catch\<close> returns the defaults.\<close>

definition init :: "json_api \<Rightarrow> fetch_api \<Rightarrow> storage \<Rightarrow> (storage \<times> channel list) completion" where
  "init J fetch st =
     (case init_try J fetch st of
        Throw \<Rightarrow> Normal (st, DEFAULT_CHANNELS)
      | Normal r \<Rightarrow> Normal r)"

text \<open>\<open>DBService.saveAllChannels\<close>: an exception of \<open>setItem\<close> is logged and dropped.\<close>

definition saveAllChannels :: "json_api \<Rightarrow> channel list \<Rightarrow> storage \<Rightarrow> storage" where
  "saveAllChannels J cs st =
     (case setItem st STORAGE_KEY (JSON_stringify J cs) of
        Throw \<Rightarrow> st
      | Normal st' \<Rightarrow> st')"

section \<open>App.tsx\<close>

text \<open>The state of the component \<open>App\<close>.\<close>

record app =
  channels :: "channel list"
  currentChannelId :: string
  isMenuOpen :: bool
  isAdminOpen :: bool
  isLoginOpen :: bool


text \<open>
  \<open>handleChannelChange\<close>. \<open>toLowerCase\<close> is the platform's function on strings and
  \<open>innerWidth\<close> the width of the window.
\<close>

definition handleChannelChange :: "(string \<Rightarrow> string) \<Rightarrow> nat \<Rightarrow> string \<Rightarrow> app \<Rightarrow> app" where
  "handleChannelChange toLowerCase innerWidth ident a =
     (let target =
            or_else (find (\<lambda>c. idC c = ident) (channels a))
           (or_else (find (\<lambda>c. str_includes (toLowerCase (name c)) (toLowerCase ident)) (channels a))
                    (find (\<lambda>c. str_includes (idC c) ident) (channels a)))
      in case target of
           Some t \<Rightarrow>
             (let a' = a\<lparr>currentChannelId := idC t\<rparr>
              in if innerWidth < 1024 then a'\<lparr>isMenuOpen := False\<rparr> else a')
         | None \<Rightarrow> a)"

text \<open>\<open>handleSaveChannels\<close>, on the component state and the storage.\<close>

definition handleSaveChannels :: "json_api \<Rightarrow> channel list \<Rightarrow> app \<times> storage \<Rightarrow> app \<times> storage" where
  "handleSaveChannels J updatedChannels = (\<lambda>(a, st).
     let a1 = a\<lparr>channels := updatedChannels\<rparr>;
         st1 = saveAllChannels J updatedChannels st
     in if find (\<lambda>c. idC c = currentChannelId a) updatedChannels = None
           \<and> length updatedChannels > 0
        then (a1\<lparr>currentChannelId := idC (updatedChannels ! 0)\<rparr>, st1)
        else (a1, st1))"

text \<open>\<open>handleToggleFavorite\<close>.\<close>

definition handleToggleFavorite :: "json_api \<Rightarrow> string \<Rightarrow> app \<times> storage \<Rightarrow> app \<times> storage" where
  "handleToggleFavorite J channelId = (\<lambda>(a, st).
     let updatedChannels =
           map (\<lambda>c. if idC c = channelId then c\<lparr>isFavorite := Some (\<not> truthy (isFavorite c))\<rparr> else c)
               (channels a)
     in handleSaveChannels J updatedChannels (a, st))"

section \<open>components/VideoPlayer.tsx\<close>

text \<open>
  The video element is seen through the calls and assignments the component makes on
  it, in their order; an instance of the streaming client (\<open>Hls\<close>) likewise.
\<close>

datatype video_call = SetVolume rat | SetMuted bool | SetSrc string | Load | Play | Pause | RemoveSrc

datatype hls_call = LoadSource string | AttachMedia | StartLoad | RecoverMediaError | Destroy

text \<open>The members of \<open>Hls.ErrorTypes\<close> and the fields of the error event the handler reads.\<close>

datatype ErrorTypes = NETWORK_ERROR | MEDIA_ERROR | KEY_SYSTEM_ERROR | MUX_ERROR | OTHER_ERROR

record error_data =
  fatal :: bool
  etype :: ErrorTypes

text \<open>
  What \<open>video.play()\<close> gives: \<open>undefined\<close> (a browser without play promises), a promise
  that resolves, or one that rejects (a call that throws is caught by the same handler).
\<close>

datatype play_result = Undefined | Resolves | Rejects

text \<open>
  The platform as the channel effect meets it: \<open>Hls.isSupported()\<close>, whether
  \<open>video.canPlayType('application/vnd.apple.mpegurl')\<close> is a non-empty string, and the
  results of the first and of the second call of \<open>play\<close> in \<open>attemptAutoPlay\<close>.
\<close>

record player_env =
  Hls_isSupported :: bool
  canPlayType :: bool
  first_play :: play_result
  second_play :: play_result

text \<open>
  The component: the calls made on the video element, \<open>hlsRef.current\<close> with the calls
  made on that instance (\<open>None\<close> is \<open>null\<close>), the instances no longer referenced, the
  number of one-shot \<open>loadedmetadata\<close> listeners registered on the video element, and
  the React state the properties read. Each run of the native path adds one such
  listener (line 202), and the function the effect returns removes none, so several
  can be registered at a time.
\<close>

record player =
  video :: "video_call list"
  hlsRef :: "hls_call list option"
  retired :: "hls_call list list"
  metadata_listeners :: nat
  isMuted :: bool
  isPlaying :: bool
  volume :: rat
  isBuffering :: bool

text \<open>Lines 439 to 445: the play overlay is rendered when neither playing nor buffering.\<close>

definition play_overlay :: "player \<Rightarrow> bool" where
  "play_overlay p = (\<not> isPlaying p \<and> \<not> isBuffering p)"

definition on_video :: "video_call list \<Rightarrow> player \<Rightarrow> player" where
  "on_video cs p = p\<lparr>video := video p @ cs\<rparr>"

definition on_hls :: "hls_call \<Rightarrow> player \<Rightarrow> player" where
  "on_hls c p = p\<lparr>hlsRef := map_option (\<lambda>h. h @ [c]) (hlsRef p)\<rparr>"

text \<open>\<open>attemptAutoPlay\<close>.\<close>

definition attemptAutoPlay :: "player_env \<Rightarrow> player \<Rightarrow> player" where
  "attemptAutoPlay E p =
     (let p1 = (on_video [SetVolume 1] p)\<lparr>volume := 1\<rparr>;
          p2 = (on_video [SetMuted False] p1)\<lparr>isMuted := False\<rparr>;
          p3 = on_video [Play] p2
      in case first_play E of
           Undefined \<Rightarrow> p3
         | Resolves \<Rightarrow> p3\<lparr>isPlaying := True\<rparr>
         | Rejects \<Rightarrow>
             (let p4 = (on_video [SetMuted True] p3)\<lparr>isMuted := True\<rparr>;
                  p5 = (on_video [SetVolume 1] p4)\<lparr>volume := 1\<rparr>;
                  p6 = on_video [Play] p5
              in case second_play E of
                   Rejects \<Rightarrow> p6\<lparr>isPlaying := False\<rparr>
                 | _ \<Rightarrow> p6\<lparr>isPlaying := True\<rparr>))"

text \<open>Line 159.\<close>

definition isHlsSource :: "string \<Rightarrow> bool" where
  "isHlsSource url = str_includes url ''.m3u8''"

text \<open>
  The effect of lines 143 to 209, run when \<open>channel.id\<close> or \<open>channel.videoUrl\<close> changes.
  In the source \<open>attemptAutoPlay\<close> is asynchronous; here it runs to its end where it
  is called.
\<close>

definition load_channel :: "player_env \<Rightarrow> channel \<Rightarrow> player \<Rightarrow> player" where
  "load_channel E ch p =
     (let p1 = (on_video [SetVolume 1] p)\<lparr>volume := 1, isBuffering := True\<rparr>;
          p2 = (case hlsRef p1 of
                  None \<Rightarrow> p1
                | Some h \<Rightarrow> p1\<lparr>hlsRef := None, retired := retired p1 @ [h @ [Destroy]]\<rparr>)
      in if isHlsSource (videoUrl ch) then
           (if Hls_isSupported E then
              p2\<lparr>hlsRef := Some [LoadSource (videoUrl ch), AttachMedia]\<rparr>
            else if canPlayType E then
              (on_video [SetSrc (videoUrl ch)] p2)\<lparr>metadata_listeners := Suc (metadata_listeners p2)\<rparr>
            else p2)
         else
           attemptAutoPlay E (on_video [SetSrc (videoUrl ch), Load] p2))"

text \<open>The function the effect returns (lines 211 to 220), run before the next effect.\<close>

definition unload_channel :: "player \<Rightarrow> player" where
  "unload_channel p = on_video [Pause, RemoveSrc, Load] (on_hls Destroy p)"

text \<open>The handler of \<open>Hls.Events.MANIFEST_PARSED\<close> (lines 173 to 176).\<close>

definition on_MANIFEST_PARSED :: "player_env \<Rightarrow> player \<Rightarrow> player" where
  "on_MANIFEST_PARSED E p = attemptAutoPlay E (p\<lparr>isBuffering := False\<rparr>)"

text \<open>The handler of \<open>Hls.Events.ERROR\<close> (lines 178 to 194).\<close>

definition on_ERROR :: "error_data \<Rightarrow> player \<Rightarrow> player" where
  "on_ERROR d p =
     (if fatal d then
        (case etype d of
           NETWORK_ERROR \<Rightarrow> on_hls StartLoad p
         | MEDIA_ERROR \<Rightarrow> on_hls RecoverMediaError p
         | _ \<Rightarrow> on_hls Destroy p)
      else p)"

text \<open>The body of a one-shot listener \<open>onLoadedMetadata\<close> of the native path (lines 198 to 201).\<close>

definition onLoadedMetadata :: "player_env \<Rightarrow> player \<Rightarrow> player" where
  "onLoadedMetadata E p = attemptAutoPlay E (p\<lparr>isBuffering := False\<rparr>)"

text \<open>
  The events the component listens to. An event of the streaming client reaches its
  handler while the instance is referenced and not destroyed. \<open>loadedmetadata\<close> runs
  every one-shot listener that is registered, one after the other in the order of
  registration, and unregisters them all. As everywhere, each call of
  \<open>attemptAutoPlay\<close> runs to its end where it is called: a call of \<open>play\<close> that the
  autoplay policy blocks returns a promise that is already rejected, so the rest of
  \<open>attemptAutoPlay\<close> runs when its listener returns, before the next listener; and
  after a call that resolves, \<open>attemptAutoPlay\<close> makes no further call on the video
  element. The listeners of \<open>play\<close>, \<open>pause\<close>, \<open>waiting\<close> and \<open>playing\<close> are those
  of lines 261 to 275.
\<close>

datatype player_event =
    ManifestParsed | HlsError error_data | LoadedMetadata
  | VideoPlay | VideoPause | VideoWaiting | VideoPlaying

definition hls_listening :: "player \<Rightarrow> bool" where
  "hls_listening p = (case hlsRef p of None \<Rightarrow> False | Some h \<Rightarrow> Destroy \<notin> set h)"

fun dispatch :: "player_env \<Rightarrow> player_event \<Rightarrow> player \<Rightarrow> player" where
  "dispatch E ManifestParsed p = (if hls_listening p then on_MANIFEST_PARSED E p else p)"
| "dispatch E (HlsError d) p = (if hls_listening p then on_ERROR d p else p)"
| "dispatch E LoadedMetadata p =
     (onLoadedMetadata E ^^ metadata_listeners p) (p\<lparr>metadata_listeners := 0\<rparr>)"
| "dispatch E VideoPlay p = p\<lparr>isPlaying := True, isBuffering := False\<rparr>"
| "dispatch E VideoPause p = p\<lparr>isPlaying := False\<rparr>"
| "dispatch E VideoWaiting p = p\<lparr>isBuffering := True\<rparr>"
| "dispatch E VideoPlaying p = p\<lparr>isBuffering := False\<rparr>"

text \<open>The component as mounted: the initial values of lines 24 to 31.\<close>

definition VideoPlayer_initial :: player where
  "VideoPlayer_initial =
     \<lparr> video = [], hlsRef = None, retired = [], metadata_listeners = 0,
       isMuted = False, isPlaying = False, volume = 1, isBuffering = True \<rparr>"

section \<open>services/geminiLive.ts and components/VoiceRemote.tsx\<close>

text \<open>
  The resources of the platform that a voice session holds, each known by a number:
  the microphone streams whose tracks have not been stopped, the streaming sessions
  that are open, the audio contexts that are open, and the buffer sources that were
  started and have neither ended nor been stopped. \<open>next_id\<close> numbers the next one.
\<close>

record native =
  live_streams :: "nat set"
  open_sessions :: "nat set"
  open_contexts :: "nat set"
  started_sources :: "nat set"
  next_id :: nat

text \<open>The fields of \<open>GeminiLiveService\<close>; \<open>None\<close> is \<open>null\<close>, \<open>ai\<close> is whether the client is set.\<close>

record service =
  ai :: bool
  inputAudioContext :: "nat option"
  outputAudioContext :: "nat option"
  nextStartTime :: rat
  sources :: "nat set"
  session :: "nat option"
  stream :: "nat option"
  processor :: "nat option"
  inputSource :: "nat option"

text \<open>The state of \<open>VoiceRemote\<close> that \<open>toggleConnection\<close> and the callbacks write.\<close>

record voice_remote =
  status :: ConnectionState
  transcript :: string

type_synonym voice = "voice_remote \<times> service \<times> native"

definition GeminiLiveService_new :: service where
  "GeminiLiveService_new =
     \<lparr> ai = False, inputAudioContext = None, outputAudioContext = None, nextStartTime = 0,
       sources = {}, session = None, stream = None, processor = None, inputSource = None \<rparr>"

definition voice_initial :: voice where
  "voice_initial =
     (\<lparr> status = DISCONNECTED, transcript = [] \<rparr>, GeminiLiveService_new,
      \<lparr> live_streams = {}, open_sessions = {}, open_contexts = {}, started_sources = {},
        next_id = 0 \<rparr>)"

text \<open>\<open>stopAudioOutput\<close>: every source of the set is stopped, the set is cleared.\<close>

definition stopAudioOutput :: "service \<times> native \<Rightarrow> service \<times> native" where
  "stopAudioOutput = (\<lambda>(s, n).
     (s\<lparr>sources := {}, nextStartTime := 0\<rparr>,
      n\<lparr>started_sources := started_sources n - sources s\<rparr>))"

text \<open>\<open>disconnect\<close> (lines 216 to 249).\<close>

definition disconnect :: "service \<times> native \<Rightarrow> service \<times> native" where
  "disconnect = (\<lambda>(s, n).
     let n1 = (case session s of None \<Rightarrow> n
               | Some i \<Rightarrow> n\<lparr>open_sessions := open_sessions n - {i}\<rparr>);
         n2 = (case stream s of None \<Rightarrow> n1
               | Some i \<Rightarrow> n1\<lparr>live_streams := live_streams n1 - {i}\<rparr>);
         n3 = (case inputAudioContext s of None \<Rightarrow> n2
               | Some i \<Rightarrow> n2\<lparr>open_contexts := open_contexts n2 - {i}\<rparr>);
         n4 = (case outputAudioContext s of None \<Rightarrow> n3
               | Some i \<Rightarrow> n3\<lparr>open_contexts := open_contexts n3 - {i}\<rparr>);
         s1 = s\<lparr>session := None, stream := None, processor := None, inputSource := None,
                inputAudioContext := None, outputAudioContext := None, ai := False\<rparr>
     in stopAudioOutput (s1, n4))"

text \<open>
  \<open>connect\<close> (lines 35 to 206), with the outcomes of \<open>getUserMedia\<close> and of
  \<open>ai.live.connect\<close> (true: the promise resolves). It runs to its end: on success the
  \<open>onopen\<close> callback has set the status and created the input source and the
  processor, and the session is assigned.
\<close>

definition connect :: "bool \<Rightarrow> bool \<Rightarrow> voice \<Rightarrow> voice" where
  "connect getUserMedia_ok live_connect_ok = (\<lambda>(v, s, n).
     let i = next_id n;
         v1 = v\<lparr>status := CONNECTING\<rparr>;
         s1 = s\<lparr>ai := True, inputAudioContext := Some i, outputAudioContext := Some (i + 1)\<rparr>;
         n1 = n\<lparr>open_contexts := open_contexts n \<union> {i, i + 1}, next_id := i + 2\<rparr>
     in if \<not> getUserMedia_ok then (v1\<lparr>status := ERROR\<rparr>, s1, n1)
        else
          let s2 = s1\<lparr>stream := Some (i + 2)\<rparr>;
              n2 = n1\<lparr>live_streams := live_streams n1 \<union> {i + 2}, next_id := i + 3\<rparr>
          in if \<not> live_connect_ok then (v1\<lparr>status := ERROR\<rparr>, s2, n2)
             else
               (v1\<lparr>status := CONNECTED\<rparr>,
                s2\<lparr>inputSource := Some (i + 3), processor := Some (i + 4), session := Some (i + 5)\<rparr>,
                n2\<lparr>open_sessions := open_sessions n2 \<union> {i + 5}, next_id := i + 6\<rparr>))"

text \<open>\<open>toggleConnection\<close> of \<open>VoiceRemote\<close> (lines 18 to 39): the click on the microphone button.\<close>

definition toggleConnection :: "bool \<Rightarrow> bool \<Rightarrow> voice \<Rightarrow> voice" where
  "toggleConnection getUserMedia_ok live_connect_ok = (\<lambda>(v, s, n).
     if status v = CONNECTED \<or> status v = CONNECTING then
       (let (s', n') = disconnect (s, n)
        in (v\<lparr>status := DISCONNECTED, transcript := []\<rparr>, s', n'))
     else
       connect getUserMedia_ok live_connect_ok (v\<lparr>transcript := ''Initialisation...''\<rparr>, s, n))"

text \<open>
  The callbacks of the session (lines 125 to 196). \<open>onclose\<close> runs when the session has
  closed: the platform has closed the session itself, and the callback sets the
  status. \<open>onerror\<close> runs on a transport error and sets the status. \<open>onmessage\<close>
  with audio starts a new buffer source of the given duration at the given context
  time; with \<open>interrupted\<close> it stops the output. \<open>ended\<close> is the event of a source.
\<close>

definition onclose :: "voice \<Rightarrow> voice" where
  "onclose = (\<lambda>(v, s, n).
     (v\<lparr>status := DISCONNECTED\<rparr>, s,
      n\<lparr>open_sessions := open_sessions n - (case session s of None \<Rightarrow> {} | Some i \<Rightarrow> {i})\<rparr>))"

definition onerror :: "voice \<Rightarrow> voice" where
  "onerror = (\<lambda>(v, s, n). (v\<lparr>status := ERROR\<rparr>, s, n))"

definition onmessage_audio :: "rat \<Rightarrow> rat \<Rightarrow> voice \<Rightarrow> voice" where
  "onmessage_audio currentTime duration = (\<lambda>(v, s, n).
     case outputAudioContext s of
       None \<Rightarrow> (v, s, n)
     | Some _ \<Rightarrow>
         let i = next_id n
         in (v,
             s\<lparr>nextStartTime := max (nextStartTime s) currentTime + duration,
               sources := sources s \<union> {i}\<rparr>,
             n\<lparr>started_sources := started_sources n \<union> {i}, next_id := i + 1\<rparr>))"

definition onmessage_interrupted :: "voice \<Rightarrow> voice" where
  "onmessage_interrupted = (\<lambda>(v, s, n).
     let (s', n') = stopAudioOutput (s, n) in (v, s', n'))"

definition ended :: "nat \<Rightarrow> voice \<Rightarrow> voice" where
  "ended i = (\<lambda>(v, s, n).
     (v, s\<lparr>sources := sources s - {i}\<rparr>, n\<lparr>started_sources := started_sources n - {i}\<rparr>))"

text \<open>
  A voice session is released when the service holds nothing and the platform holds
  no live microphone stream, no open session and no started buffer source.
\<close>

definition released :: "voice \<Rightarrow> bool" where
  "released = (\<lambda>(v, s, n).
     live_streams n = {} \<and> open_sessions n = {} \<and> started_sources n = {}
     \<and> stream s = None \<and> session s = None \<and> sources s = {})"

section \<open>Concrete instances\<close>

text \<open>
  The instances at which the properties below are evaluated. On strings of ASCII
  letters \<open>toLowerCase\<close> is the function \<open>toLowerCase_ascii\<close>.
\<close>

definition toLowerCase_ascii :: "string \<Rightarrow> string" where
  "toLowerCase_ascii =
     map (\<lambda>c. case map_of (zip ''ABCDEFGHIJKLMNOPQRSTUVWXYZ'' ''abcdefghijklmnopqrstuvwxyz'') c of
                Some d \<Rightarrow> d | None \<Rightarrow> c)"

text \<open>The application after \<open>initApp\<close> has loaded the default channels.\<close>

definition app0 :: app where
  "app0 = \<lparr> channels = DEFAULT_CHANNELS, currentChannelId = ''live1'', isMenuOpen = True,
          isAdminOpen = False, isLoginOpen = False \<rparr>"

text \<open>
  A platform on which \<open>JSON\<close> writes the empty collection as \<open>[]\<close> and reads it
  back, writes and reads back the default collection, reads \<open>{}\<close> as a value that
  is no array, and rejects every other text.
\<close>

definition J0 :: json_api where
  "J0 = \<lparr> JSON_stringify = (\<lambda>cs. if cs = [] then ''[]''
                              else if cs = DEFAULT_CHANNELS then ''[default]'' else ''[other]''),
          JSON_parse = (\<lambda>s. if s = ''[]'' then Normal (Arr [])
                          else if s = ''[default]'' then Normal (Arr DEFAULT_CHANNELS)
                          else if s = ''{}'' then Normal NonArr
                          else Throw) \<rparr>"

text \<open>An empty storage that can be read and written.\<close>

definition storage0 :: storage where
  "storage0 = \<lparr> items = Map.empty, readable = True, writable = True \<rparr>"

text \<open>A storage whose quota is exhausted: it can be read, and every write throws.\<close>

definition storage_full :: storage where
  "storage_full = \<lparr> items = Map.empty, readable = True, writable = False \<rparr>"

text \<open>A storage the browser denies to the page: every call throws.\<close>

definition storage_denied :: storage where
  "storage_denied = \<lparr> items = Map.empty, readable = False, writable = False \<rparr>"

text \<open>A fetch that is rejected, and one that answers with the given collection.\<close>

definition fetch_fails :: fetch_api where
  "fetch_fails = (\<lambda>url. Throw)"

definition fetch_gives :: "channel list \<Rightarrow> fetch_api" where
  "fetch_gives cs = (\<lambda>url. Normal \<lparr> ok = True, json = Normal (Arr cs) \<rparr>)"


text \<open>
  Three browsers: one with the streaming client and every autoplay blocked, one with
  neither the streaming client nor native support of adaptive streams, and one with
  native support where only muted autoplay is allowed.
\<close>

definition env_hls :: player_env where
  "env_hls = \<lparr> Hls_isSupported = True, canPlayType = False, first_play = Rejects, second_play = Rejects \<rparr>"

definition env_none :: player_env where
  "env_none = \<lparr> Hls_isSupported = False, canPlayType = False, first_play = Resolves, second_play = Resolves \<rparr>"

definition env_native :: player_env where
  "env_native = \<lparr> Hls_isSupported = False, canPlayType = True, first_play = Rejects, second_play = Resolves \<rparr>"

text \<open>
  A channel on a progressive file (one of \<open>SAMPLE_VIDEOS\<close> of the admin panel), and a
  channel whose manifest URL carries a query string.
\<close>

definition mp4_channel :: channel where
  "mp4_channel = (DEFAULT_CHANNELS ! 0)
     \<lparr> videoUrl := ''https://storage.googleapis.com/gtv-videos-bucket/sample/Sintel.mp4'' \<rparr>"

definition signed_channel :: channel where
  "signed_channel = (DEFAULT_CHANNELS ! 0) \<lparr> videoUrl := ''https://cdn.example/live.m3u8?token=1'' \<rparr>"

section \<open>Notions of the properties\<close>

text \<open>\<open>t\<close> is the first element of \<open>xs\<close>, in the order of the list, that satisfies \<open>P\<close>.\<close>

definition first_match :: "('a \<Rightarrow> bool) \<Rightarrow> 'a list \<Rightarrow> 'a \<Rightarrow> bool" where
  "first_match P xs t = (\<exists>i < length xs. xs ! i = t \<and> P t \<and> (\<forall>j < i. \<not> P (xs ! j)))"


text \<open>
  The calls one autoplay attempt makes on the video element: volume, unmute and
  \<open>play\<close>, and after a rejection of that call mute, volume and \<open>play\<close> again.
\<close>

definition autoplay_calls :: "player_env \<Rightarrow> video_call list" where
  "autoplay_calls E =
     [SetVolume 1, SetMuted False, Play]
       @ (if first_play E = Rejects then [SetMuted True, SetVolume 1, Play] else [])"

text \<open>
  The play flag after one autoplay attempt that started with the flag \<open>b\<close>: unchanged
  where \<open>play\<close> returns no promise, true where the first call resolves, and after a
  rejected first call true unless the second call is rejected too.
\<close>

definition autoplay_playing :: "player_env \<Rightarrow> bool \<Rightarrow> bool" where
  "autoplay_playing E b =
     (case first_play E of
        Undefined \<Rightarrow> b
      | Resolves \<Rightarrow> True
      | Rejects \<Rightarrow> second_play E \<noteq> Rejects)"

section \<open>Strings and lists\<close>

text \<open>\<open>str_includes\<close> is the contiguous-sublist relation of the library.\<close>

lemma str_includes_sublist: "str_includes s t = sublist t s"
  by (induction s) (auto simp: sublist_Cons_right)

text \<open>\<open>find\<close>, the model of \<open>Array.prototype.find\<close>, gives the first match or none.\<close>

lemma find_first_match: "find P xs = Some t \<longleftrightarrow> first_match P xs t"
  by (auto simp: find_Some_iff first_match_def)

lemma find_no_match: "find P xs = None \<longleftrightarrow> (\<forall>c \<in> set xs. \<not> P c)"
  by (auto simp: find_None_iff)

section \<open>Channel selection\<close>

text \<open>
  C10. \<open>handleChannelChange\<close> resolves the requested identifier in this order. If
  some channel has an id equal to the input, the active id becomes the id of the first
  such channel, which is the input. Else, if the lower-cased name of some channel
  contains the lower-cased input, the active id becomes the id of the first such
  channel. Else, if the id of some channel contains the input as a substring, the
  active id becomes the id of the first such channel. If no channel matches under any
  of the three rules, the state is returned as it is. The collection itself is never
  changed. This holds for every \<open>toLowerCase\<close> and every window width.
\<close>

theorem handleChannelChange_resolves_in_order:
  "(first_match (\<lambda>c. idC c = x) (channels a) t
      \<longrightarrow> currentChannelId (handleChannelChange lc w x a) = idC t \<and> idC t = x)
   \<and> ((\<forall>c \<in> set (channels a). idC c \<noteq> x)
      \<and> first_match (\<lambda>c. str_includes (lc (name c)) (lc x)) (channels a) t
      \<longrightarrow> currentChannelId (handleChannelChange lc w x a) = idC t)
   \<and> ((\<forall>c \<in> set (channels a). idC c \<noteq> x \<and> \<not> str_includes (lc (name c)) (lc x))
      \<and> first_match (\<lambda>c. str_includes (idC c) x) (channels a) t
      \<longrightarrow> currentChannelId (handleChannelChange lc w x a) = idC t)
   \<and> ((\<forall>c \<in> set (channels a). idC c \<noteq> x \<and> \<not> str_includes (lc (name c)) (lc x)
          \<and> \<not> str_includes (idC c) x)
      \<longrightarrow> handleChannelChange lc w x a = a)
   \<and> channels (handleChannelChange lc w x a) = channels a"
proof (intro conjI impI)
  assume "first_match (\<lambda>c. idC c = x) (channels a) t"
  then have f: "find (\<lambda>c. idC c = x) (channels a) = Some t" by (simp add: find_first_match)
  then show "currentChannelId (handleChannelChange lc w x a) = idC t"
    by (simp add: handleChannelChange_def Let_def)
  from f show "idC t = x" by (auto simp: find_Some_iff)
next
  assume "(\<forall>c \<in> set (channels a). idC c \<noteq> x)
      \<and> first_match (\<lambda>c. str_includes (lc (name c)) (lc x)) (channels a) t"
  then have "find (\<lambda>c. idC c = x) (channels a) = None"
    "find (\<lambda>c. str_includes (lc (name c)) (lc x)) (channels a) = Some t"
    by (simp_all add: find_first_match find_no_match)
  then show "currentChannelId (handleChannelChange lc w x a) = idC t"
    by (simp add: handleChannelChange_def Let_def)
next
  assume "(\<forall>c \<in> set (channels a). idC c \<noteq> x \<and> \<not> str_includes (lc (name c)) (lc x))
      \<and> first_match (\<lambda>c. str_includes (idC c) x) (channels a) t"
  then have "find (\<lambda>c. idC c = x) (channels a) = None"
    "find (\<lambda>c. str_includes (lc (name c)) (lc x)) (channels a) = None"
    "find (\<lambda>c. str_includes (idC c) x) (channels a) = Some t"
    by (simp_all add: find_first_match find_no_match)
  then show "currentChannelId (handleChannelChange lc w x a) = idC t"
    by (simp add: handleChannelChange_def Let_def)
next
  assume "\<forall>c \<in> set (channels a). idC c \<noteq> x \<and> \<not> str_includes (lc (name c)) (lc x)
          \<and> \<not> str_includes (idC c) x"
  then have "find (\<lambda>c. idC c = x) (channels a) = None"
    "find (\<lambda>c. str_includes (lc (name c)) (lc x)) (channels a) = None"
    "find (\<lambda>c. str_includes (idC c) x) (channels a) = None"
    by (simp_all add: find_no_match)
  then show "handleChannelChange lc w x a = a"
    by (simp add: handleChannelChange_def)
next
  show "channels (handleChannelChange lc w x a) = channels a"
    by (simp add: handleChannelChange_def Let_def split: option.splits)
qed

theorem handleChannelChange_resolves_in_order_witness:
  "currentChannelId (handleChannelChange toLowerCase_ascii 1280 ''sport1'' app0) = ''sport1''
   \<and> currentChannelId (handleChannelChange toLowerCase_ascii 1280 ''ZEN'' app0) = ''nature1''
   \<and> currentChannelId (handleChannelChange toLowerCase_ascii 800 ''ne1'' app0) = ''cine1''
   \<and> handleChannelChange toLowerCase_ascii 800 ''xyz'' app0 = app0"
proof -
  have f1: "first_match (\<lambda>c. idC c = ''sport1'') (channels app0) (DEFAULT_CHANNELS ! 4)"
    unfolding find_first_match [symmetric] by (simp add: app0_def DEFAULT_CHANNELS_def)
  have f2: "(\<forall>c \<in> set (channels app0). idC c \<noteq> ''ZEN'')
      \<and> first_match (\<lambda>c. str_includes (toLowerCase_ascii (name c)) (toLowerCase_ascii ''ZEN''))
           (channels app0) (DEFAULT_CHANNELS ! 1)"
    unfolding find_first_match [symmetric]
    by (simp add: app0_def DEFAULT_CHANNELS_def toLowerCase_ascii_def)
  have f3: "(\<forall>c \<in> set (channels app0). idC c \<noteq> ''ne1''
        \<and> \<not> str_includes (toLowerCase_ascii (name c)) (toLowerCase_ascii ''ne1''))
      \<and> first_match (\<lambda>c. str_includes (idC c) ''ne1'') (channels app0) (DEFAULT_CHANNELS ! 2)"
    unfolding find_first_match [symmetric]
    by (simp add: app0_def DEFAULT_CHANNELS_def toLowerCase_ascii_def)
  have f4: "\<forall>c \<in> set (channels app0). idC c \<noteq> ''xyz''
      \<and> \<not> str_includes (toLowerCase_ascii (name c)) (toLowerCase_ascii ''xyz'')
      \<and> \<not> str_includes (idC c) ''xyz''"
    by (simp add: app0_def DEFAULT_CHANNELS_def toLowerCase_ascii_def)
  note r = handleChannelChange_resolves_in_order
  have "currentChannelId (handleChannelChange toLowerCase_ascii 1280 ''sport1'' app0) = idC (DEFAULT_CHANNELS ! 4)"
    using r [of "''sport1''" app0 "DEFAULT_CHANNELS ! 4" toLowerCase_ascii 1280] f1 by blast
  moreover have "currentChannelId (handleChannelChange toLowerCase_ascii 1280 ''ZEN'' app0) = idC (DEFAULT_CHANNELS ! 1)"
    using r [of "''ZEN''" app0 "DEFAULT_CHANNELS ! 1" toLowerCase_ascii 1280] f2 by blast
  moreover have "currentChannelId (handleChannelChange toLowerCase_ascii 800 ''ne1'' app0) = idC (DEFAULT_CHANNELS ! 2)"
    using r [of "''ne1''" app0 "DEFAULT_CHANNELS ! 2" toLowerCase_ascii 800] f3 by blast
  moreover have "handleChannelChange toLowerCase_ascii 800 ''xyz'' app0 = app0"
    using r [of "''xyz''" app0 _ toLowerCase_ascii 800] f4 by blast
  ultimately show ?thesis by (simp add: DEFAULT_CHANNELS_def)
qed

section \<open>Saving an edited collection\<close>


lemma find_idC_Some: "find (\<lambda>c. idC c = k) cs = Some t \<Longrightarrow> t \<in> set cs \<and> idC t = k"
  by (auto simp: find_Some_iff)




section \<open>Toggling the favourite flag\<close>

lemma handleSaveChannels_channels:
  "channels (fst (handleSaveChannels J upd x)) = upd"
  by (cases x) (simp add: handleSaveChannels_def Let_def)

lemma handleToggleFavorite_channels:
  "channels (fst (handleToggleFavorite J k x)) =
     map (\<lambda>c. if idC c = k then c\<lparr>isFavorite := Some (\<not> truthy (isFavorite c))\<rparr> else c)
         (channels (fst x))"
  by (cases x) (simp add: handleToggleFavorite_def Let_def handleSaveChannels_channels)

lemma toggle_twice_channels:
  "channels (fst (handleToggleFavorite J k (handleToggleFavorite J k x))) =
     map (\<lambda>c. if idC c = k then c\<lparr>isFavorite := Some (truthy (isFavorite c))\<rparr> else c)
         (channels (fst x))"
  by (simp add: handleToggleFavorite_channels o_def cong: if_cong) 

text \<open>
  C7, amended. One call of \<open>handleToggleFavorite\<close> with the id of channel X keeps the
  length and the order of the collection, leaves every channel with another id
  unchanged, and changes a channel with that id only in its \<open>isFavorite\<close> field, which
  becomes the negation of the truth value of the original field. Two calls therefore
  leave every channel with another id unchanged, and leave a channel with that id
  unchanged but for its \<open>isFavorite\<close> field, which becomes the boolean that the
  original field reads as: its truth value is the original one, a field that was
  \<open>true\<close> or \<open>false\<close> is restored exactly (the channel is then unchanged), and an
  absent field becomes \<open>false\<close>.
\<close>

theorem handleToggleFavorite_twice:
  "length (channels (fst (handleToggleFavorite J k (a, st)))) = length (channels a)
   \<and> (\<forall>i < length (channels a).
        (idC (channels a ! i) \<noteq> k \<longrightarrow>
           channels (fst (handleToggleFavorite J k (a, st))) ! i = channels a ! i)
      \<and> (idC (channels a ! i) = k \<longrightarrow>
           channels (fst (handleToggleFavorite J k (a, st))) ! i
             = (channels a ! i)\<lparr>isFavorite := Some (\<not> truthy (isFavorite (channels a ! i)))\<rparr>))
   \<and> length (channels (fst (handleToggleFavorite J k (handleToggleFavorite J k (a, st)))))
     = length (channels a)
   \<and> (\<forall>i < length (channels a).
        (idC (channels a ! i) \<noteq> k \<longrightarrow>
           channels (fst (handleToggleFavorite J k (handleToggleFavorite J k (a, st)))) ! i
             = channels a ! i)
      \<and> (idC (channels a ! i) = k \<longrightarrow>
           channels (fst (handleToggleFavorite J k (handleToggleFavorite J k (a, st)))) ! i
             = (channels a ! i)\<lparr>isFavorite := Some (truthy (isFavorite (channels a ! i)))\<rparr>
         \<and> truthy (isFavorite (channels (fst (handleToggleFavorite J k (handleToggleFavorite J k (a, st)))) ! i))
             = truthy (isFavorite (channels a ! i))
         \<and> (isFavorite (channels a ! i) \<noteq> None \<longrightarrow>
              channels (fst (handleToggleFavorite J k (handleToggleFavorite J k (a, st)))) ! i
                = channels a ! i)))"
proof -
  let ?cs1 = "channels (fst (handleToggleFavorite J k (a, st)))"
  let ?cs2 = "channels (fst (handleToggleFavorite J k (handleToggleFavorite J k (a, st))))"
  have eq1: "?cs1 = map (\<lambda>c. if idC c = k then c\<lparr>isFavorite := Some (\<not> truthy (isFavorite c))\<rparr> else c)
                       (channels a)"
    by (simp add: handleToggleFavorite_channels)
  have eq2: "?cs2 = map (\<lambda>c. if idC c = k then c\<lparr>isFavorite := Some (truthy (isFavorite c))\<rparr> else c)
                       (channels a)"
    by (simp add: toggle_twice_channels)
  have same: "c\<lparr>isFavorite := Some (truthy (isFavorite c))\<rparr> = c" if "isFavorite c \<noteq> None"
    for c :: channel
    using that by (cases "isFavorite c") auto
  have one: "length ?cs1 = length (channels a)
    \<and> (\<forall>i < length (channels a).
        (idC (channels a ! i) \<noteq> k \<longrightarrow> ?cs1 ! i = channels a ! i)
      \<and> (idC (channels a ! i) = k \<longrightarrow>
           ?cs1 ! i = (channels a ! i)\<lparr>isFavorite := Some (\<not> truthy (isFavorite (channels a ! i)))\<rparr>))"
    unfolding eq1 by simp
  have two: "length ?cs2 = length (channels a)
    \<and> (\<forall>i < length (channels a).
        (idC (channels a ! i) \<noteq> k \<longrightarrow> ?cs2 ! i = channels a ! i)
      \<and> (idC (channels a ! i) = k \<longrightarrow>
           ?cs2 ! i = (channels a ! i)\<lparr>isFavorite := Some (truthy (isFavorite (channels a ! i)))\<rparr>
         \<and> truthy (isFavorite (?cs2 ! i)) = truthy (isFavorite (channels a ! i))
         \<and> (isFavorite (channels a ! i) \<noteq> None \<longrightarrow> ?cs2 ! i = channels a ! i)))"
    unfolding eq2 by (auto simp: same)
  from one two show ?thesis by (intro conjI) (elim conjE, assumption)+
qed

text \<open>
  The claim that two toggles return the \<open>isFavorite\<close> field to its original value
  fails for a channel without the field: \<open>nature1\<close> of the default channels has none,
  and after two toggles its field is \<open>false\<close>.
\<close>

theorem handleToggleFavorite_twice_counterexample:
  "isFavorite (channels app0 ! 1) = None
   \<and> isFavorite (channels (fst (handleToggleFavorite J0 ''nature1''
        (handleToggleFavorite J0 ''nature1'' (app0, storage0)))) ! 1) = Some False"
  by (simp add: handleToggleFavorite_def handleSaveChannels_def Let_def app0_def
        DEFAULT_CHANNELS_def)

theorem handleToggleFavorite_twice_witness:
  "channels (fst (handleToggleFavorite J0 ''live1'' (app0, storage0))) ! 0
     = (channels app0 ! 0)\<lparr>isFavorite := Some False\<rparr>
   \<and> channels (fst (handleToggleFavorite J0 ''live1'' (app0, storage0))) ! 1
     = channels app0 ! 1
   \<and> channels (fst (handleToggleFavorite J0 ''live1'' (handleToggleFavorite J0 ''live1'' (app0, storage0)))) ! 0
     = channels app0 ! 0
   \<and> channels (fst (handleToggleFavorite J0 ''live1'' (handleToggleFavorite J0 ''live1'' (app0, storage0)))) ! 1
     = channels app0 ! 1"
proof -
  have h: "(0::nat) < length (channels app0) \<and> (1::nat) < length (channels app0)
      \<and> idC (channels app0 ! 0) = ''live1'' \<and> isFavorite (channels app0 ! 0) \<noteq> None
      \<and> idC (channels app0 ! 1) \<noteq> ''live1''"
    by (simp add: app0_def DEFAULT_CHANNELS_def)
  have t: "truthy (isFavorite (channels app0 ! 0))"
    by (simp add: app0_def DEFAULT_CHANNELS_def)
  note r = handleToggleFavorite_twice [of J0 "''live1''" app0 storage0]
  have "channels (fst (handleToggleFavorite J0 ''live1'' (app0, storage0))) ! 0
     = (channels app0 ! 0)\<lparr>isFavorite := Some (\<not> truthy (isFavorite (channels app0 ! 0)))\<rparr>"
    using r h by blast
  moreover have "channels (fst (handleToggleFavorite J0 ''live1'' (app0, storage0))) ! 1
     = channels app0 ! 1"
    using r h by blast
  moreover have "channels (fst (handleToggleFavorite J0 ''live1'' (handleToggleFavorite J0 ''live1'' (app0, storage0)))) ! 0
     = channels app0 ! 0"
    using r h by blast
  moreover have "channels (fst (handleToggleFavorite J0 ''live1'' (handleToggleFavorite J0 ''live1'' (app0, storage0)))) ! 1
     = channels app0 ! 1"
    using r h by blast
  ultimately show ?thesis using t by simp
qed

section \<open>The admin password\<close>

text \<open>
  C9, amended. For every string other than \<open>admin\<close>, \<open>AuthService.login\<close> returns
  false and leaves the storage, hence the authenticated state, as it is. For \<open>admin\<close>
  on a storage that accepts the write it returns true and stores the flag, after which
  \<open>isAuthenticated\<close> is true; \<open>login\<close> returns true exactly when the password is
  \<open>admin\<close> and the storage accepts the write, and for \<open>admin\<close> on a storage that
  refuses the write it throws. In the login form, submitting a non-empty string other
  than \<open>admin\<close> leaves the storage as it is, sets the error indicator and does not
  report success; submitting the empty string does nothing at all.
\<close>

theorem login_admin_only:
  "(pw \<noteq> ''admin'' \<longrightarrow> login pw st = Normal (st, False))
   \<and> (pw = ''admin'' \<and> readable st \<and> writable st \<longrightarrow>
        login pw st = Normal (st\<lparr>items := (items st)(AUTH_KEY \<mapsto> ''true'')\<rparr>, True)
        \<and> isAuthenticated (st\<lparr>items := (items st)(AUTH_KEY \<mapsto> ''true'')\<rparr>) = Normal True)
   \<and> ((\<exists>st'. login pw st = Normal (st', True))
        \<longleftrightarrow> pw = ''admin'' \<and> readable st \<and> writable st)
   \<and> (pw = ''admin'' \<and> \<not> (readable st \<and> writable st) \<longrightarrow> login pw st = Throw)
   \<and> (password m \<noteq> [] \<and> password m \<noteq> ''admin'' \<longrightarrow>
        (\<exists>m'. handleSubmit (m, st) = Normal (m', st) \<and> error_indicator m' \<and> succeeded m' = succeeded m))
   \<and> (password m = [] \<longrightarrow> handleSubmit (m, st) = Normal (m, st))"
  by (auto simp: login_def setItem_def getItem_def isAuthenticated_def handleSubmit_def
        Let_def error_indicator_def split: completion.splits)

text \<open>
  The claim fails at the empty string, which is another input than \<open>admin\<close>:
  \<open>handleSubmit\<close> returns at once and no error indicator is set. And with a storage
  that refuses the write, \<open>login('admin')\<close> throws, it does not return true.
\<close>

theorem login_admin_only_counterexample:
  "handleSubmit (LoginModal_initial\<lparr>password := []\<rparr>, storage0)
     = Normal (LoginModal_initial\<lparr>password := []\<rparr>, storage0)
   \<and> \<not> error_indicator (LoginModal_initial\<lparr>password := []\<rparr>)
   \<and> login ''admin'' storage_full = Throw"
  by (simp add: handleSubmit_def LoginModal_initial_def error_indicator_def login_def
        setItem_def storage_full_def)

theorem login_admin_only_witness:
  "login ''Admin'' storage0 = Normal (storage0, False)
   \<and> login ''admin'' storage0 = Normal (storage0\<lparr>items := (items storage0)(AUTH_KEY \<mapsto> ''true'')\<rparr>, True)
   \<and> isAuthenticated (storage0\<lparr>items := (items storage0)(AUTH_KEY \<mapsto> ''true'')\<rparr>) = Normal True
   \<and> login ''admin'' storage_full = Throw
   \<and> (\<exists>m'. handleSubmit (LoginModal_initial\<lparr>password := ''1234''\<rparr>, storage0) = Normal (m', storage0)
          \<and> error_indicator m' \<and> \<not> succeeded m')
   \<and> handleSubmit (LoginModal_initial\<lparr>password := []\<rparr>, storage0)
       = Normal (LoginModal_initial\<lparr>password := []\<rparr>, storage0)"
proof -
  have h1: "''Admin'' \<noteq> ''admin''" by simp
  have h2: "readable storage0 \<and> writable storage0" by (simp add: storage0_def)
  have h3: "\<not> (readable storage_full \<and> writable storage_full)" by (simp add: storage_full_def)
  have h4: "password (LoginModal_initial\<lparr>password := ''1234''\<rparr>) \<noteq> []
      \<and> password (LoginModal_initial\<lparr>password := ''1234''\<rparr>) \<noteq> ''admin''" by simp
  have h5: "password (LoginModal_initial\<lparr>password := []\<rparr>) = []" by simp
  from login_admin_only [of "''Admin''" storage0] h1
  have "login ''Admin'' storage0 = Normal (storage0, False)" by blast
  moreover from login_admin_only [of "''admin''" storage0] h2
  have "login ''admin'' storage0 = Normal (storage0\<lparr>items := (items storage0)(AUTH_KEY \<mapsto> ''true'')\<rparr>, True)
    \<and> isAuthenticated (storage0\<lparr>items := (items storage0)(AUTH_KEY \<mapsto> ''true'')\<rparr>) = Normal True"
    by blast
  moreover from login_admin_only [of "''admin''" storage_full] h3
  have "login ''admin'' storage_full = Throw" by blast
  moreover from login_admin_only [of _ storage0 "LoginModal_initial\<lparr>password := ''1234''\<rparr>"] h4
  have "\<exists>m'. handleSubmit (LoginModal_initial\<lparr>password := ''1234''\<rparr>, storage0) = Normal (m', storage0)
          \<and> error_indicator m' \<and> \<not> succeeded m'"
    by (auto simp: LoginModal_initial_def)
  moreover from login_admin_only [of _ storage0 "LoginModal_initial\<lparr>password := []\<rparr>"] h5
  have "handleSubmit (LoginModal_initial\<lparr>password := []\<rparr>, storage0)
       = Normal (LoginModal_initial\<lparr>password := []\<rparr>, storage0)" by blast
  ultimately show ?thesis by blast
qed

section \<open>Loading and saving the collection\<close>

lemma init_never_throws: "init J F st \<noteq> Throw"
  by (simp add: init_def split: completion.splits)

lemma init_stored_Some_iff:
  "init_stored J sd = Some p \<longleftrightarrow>
     (\<exists>s. sd = Some s \<and> s \<noteq> [] \<and> JSON_parse J s = Normal (Arr p) \<and> p \<noteq> [])"
  by (auto simp: init_stored_def split: option.splits completion.splits parsed.splits if_splits)

lemma init_stored_None_iff:
  "init_stored J sd = None \<longleftrightarrow>
     (\<forall>s p. sd = Some s \<and> s \<noteq> [] \<and> JSON_parse J s = Normal (Arr p) \<longrightarrow> p = [])"
  by (auto simp: init_stored_def split: option.splits completion.splits parsed.splits if_splits)

lemma init_fetch_Some_iff:
  "init_fetch J F st = Some (st', cs) \<longleftrightarrow>
     (\<exists>r. F JSON_SOURCE = Normal r \<and> ok r \<and> json r = Normal (Arr cs) \<and> cs \<noteq> []
          \<and> setItem st STORAGE_KEY (JSON_stringify J cs) = Normal st')"
  by (auto simp: init_fetch_def split: completion.splits parsed.splits if_splits)

lemma init_fetch_None_if:
  "\<forall>r cs. F JSON_SOURCE = Normal r \<and> ok r \<and> json r = Normal (Arr cs) \<longrightarrow> cs = []
   \<Longrightarrow> init_fetch J F st = None"
  by (auto simp: init_fetch_def split: completion.splits parsed.splits if_splits)

text \<open>
  C4, amended. \<open>init\<close> never throws. If the storage can be read and holds, under the
  storage key, a non-empty text that parses to a non-empty array, \<open>init\<close> returns
  that array and leaves the storage as it is. If the storage can be read and written
  and holds no such text (the key is missing, the text is empty, is not JSON, is no
  array or is the empty array), and the fetch resolves with \<open>ok\<close> and a non-empty
  array, \<open>init\<close> stores that array and returns it. If the storage can be read and
  holds no such text, and the fetch gives no non-empty array (it rejects, is not
  \<open>ok\<close>, its body is not JSON, no array or the empty array), \<open>init\<close> returns the
  default channels, and stores them when the storage can be written. If the storage
  cannot be read, \<open>init\<close> returns the default channels without fetching.
\<close>

theorem init_priority_order:
  "init J F st \<noteq> Throw
   \<and> (\<forall>s p. getItem st STORAGE_KEY = Normal (Some s) \<and> s \<noteq> []
          \<and> JSON_parse J s = Normal (Arr p) \<and> p \<noteq> []
        \<longrightarrow> init J F st = Normal (st, p))
   \<and> (\<forall>r cs. readable st \<and> writable st
          \<and> (\<forall>s p. items st STORAGE_KEY = Some s \<and> s \<noteq> [] \<and> JSON_parse J s = Normal (Arr p)
                 \<longrightarrow> p = [])
          \<and> F JSON_SOURCE = Normal r \<and> ok r \<and> json r = Normal (Arr cs) \<and> cs \<noteq> []
        \<longrightarrow> init J F st
              = Normal (st\<lparr>items := (items st)(STORAGE_KEY \<mapsto> JSON_stringify J cs)\<rparr>, cs))
   \<and> (readable st
          \<and> (\<forall>s p. items st STORAGE_KEY = Some s \<and> s \<noteq> [] \<and> JSON_parse J s = Normal (Arr p)
                 \<longrightarrow> p = [])
          \<and> (\<forall>r cs. F JSON_SOURCE = Normal r \<and> ok r \<and> json r = Normal (Arr cs) \<longrightarrow> cs = [])
        \<longrightarrow> init J F st
              = Normal (if writable st
                        then st\<lparr>items := (items st)(STORAGE_KEY \<mapsto> JSON_stringify J DEFAULT_CHANNELS)\<rparr>
                        else st,
                        DEFAULT_CHANNELS))
   \<and> (\<not> readable st \<longrightarrow> init J F st = Normal (st, DEFAULT_CHANNELS))"
proof (intro conjI allI impI)
  show "init J F st \<noteq> Throw" by (rule init_never_throws)
next
  fix s p
  assume "getItem st STORAGE_KEY = Normal (Some s) \<and> s \<noteq> []
          \<and> JSON_parse J s = Normal (Arr p) \<and> p \<noteq> []"
  then have "getItem st STORAGE_KEY = Normal (Some s)" "init_stored J (Some s) = Some p"
    by (simp_all add: init_stored_Some_iff)
  then show "init J F st = Normal (st, p)"
    by (simp add: init_def init_try_def)
next
  fix r cs
  assume h: "readable st \<and> writable st
          \<and> (\<forall>s p. items st STORAGE_KEY = Some s \<and> s \<noteq> [] \<and> JSON_parse J s = Normal (Arr p)
                 \<longrightarrow> p = [])
          \<and> F JSON_SOURCE = Normal r \<and> ok r \<and> json r = Normal (Arr cs) \<and> cs \<noteq> []"
  then have g: "getItem st STORAGE_KEY = Normal (items st STORAGE_KEY)"
    by (simp add: getItem_def)
  from h have n: "init_stored J (items st STORAGE_KEY) = None"
    unfolding init_stored_None_iff by blast
  from h have "init_fetch J F st
      = Some (st\<lparr>items := (items st)(STORAGE_KEY \<mapsto> JSON_stringify J cs)\<rparr>, cs)"
    by (simp add: init_fetch_Some_iff setItem_def)
  with g n show "init J F st
      = Normal (st\<lparr>items := (items st)(STORAGE_KEY \<mapsto> JSON_stringify J cs)\<rparr>, cs)"
    by (simp add: init_def init_try_def)
next
  assume h: "readable st
          \<and> (\<forall>s p. items st STORAGE_KEY = Some s \<and> s \<noteq> [] \<and> JSON_parse J s = Normal (Arr p)
                 \<longrightarrow> p = [])
          \<and> (\<forall>r cs. F JSON_SOURCE = Normal r \<and> ok r \<and> json r = Normal (Arr cs) \<longrightarrow> cs = [])"
  then have g: "getItem st STORAGE_KEY = Normal (items st STORAGE_KEY)"
    by (simp add: getItem_def)
  from h have n: "init_stored J (items st STORAGE_KEY) = None"
    unfolding init_stored_None_iff by blast
  from h have f: "init_fetch J F st = None"
    by (intro init_fetch_None_if) blast
  from h g n f show "init J F st
              = Normal (if writable st
                        then st\<lparr>items := (items st)(STORAGE_KEY \<mapsto> JSON_stringify J DEFAULT_CHANNELS)\<rparr>
                        else st,
                        DEFAULT_CHANNELS)"
    by (simp add: init_def init_try_def setItem_def)
next
  assume "\<not> readable st"
  then show "init J F st = Normal (st, DEFAULT_CHANNELS)"
    by (simp add: init_def init_try_def getItem_def)
qed

text \<open>
  The claim that the first source that succeeds is returned fails where the storage
  cannot be read: the fetch would answer with a non-empty collection, and \<open>init\<close>
  returns the defaults without trying it.
\<close>

theorem init_priority_order_counterexample:
  "init J0 (fetch_gives (tl DEFAULT_CHANNELS)) storage_denied
     = Normal (storage_denied, DEFAULT_CHANNELS)
   \<and> DEFAULT_CHANNELS \<noteq> tl DEFAULT_CHANNELS
   \<and> fetch_gives (tl DEFAULT_CHANNELS) JSON_SOURCE
       = Normal \<lparr> ok = True, json = Normal (Arr (tl DEFAULT_CHANNELS)) \<rparr>
   \<and> tl DEFAULT_CHANNELS \<noteq> []"
  by (simp add: init_def init_try_def getItem_def storage_denied_def fetch_gives_def
        DEFAULT_CHANNELS_def)

theorem init_priority_order_witness:
  "init J0 fetch_fails (storage0\<lparr>items := [STORAGE_KEY \<mapsto> ''[default]'']\<rparr>)
     = Normal (storage0\<lparr>items := [STORAGE_KEY \<mapsto> ''[default]'']\<rparr>, DEFAULT_CHANNELS)
   \<and> init J0 (fetch_gives (tl DEFAULT_CHANNELS)) storage0
     = Normal (storage0\<lparr>items := [STORAGE_KEY \<mapsto> ''[other]'']\<rparr>, tl DEFAULT_CHANNELS)
   \<and> init J0 fetch_fails (storage0\<lparr>items := [STORAGE_KEY \<mapsto> ''not json'']\<rparr>)
     = Normal (storage0\<lparr>items := [STORAGE_KEY \<mapsto> ''[default]'']\<rparr>, DEFAULT_CHANNELS)
   \<and> init J0 (fetch_gives (tl DEFAULT_CHANNELS)) storage_denied
     = Normal (storage_denied, DEFAULT_CHANNELS)"
proof -
  have ne: "DEFAULT_CHANNELS \<noteq> []" "tl DEFAULT_CHANNELS \<noteq> []"
    "tl DEFAULT_CHANNELS \<noteq> DEFAULT_CHANNELS"
    by (simp_all add: DEFAULT_CHANNELS_def)
  have h1: "getItem (storage0\<lparr>items := [STORAGE_KEY \<mapsto> ''[default]'']\<rparr>) STORAGE_KEY
        = Normal (Some ''[default]'')
      \<and> ''[default]'' \<noteq> [] \<and> JSON_parse J0 ''[default]'' = Normal (Arr DEFAULT_CHANNELS)
      \<and> DEFAULT_CHANNELS \<noteq> []"
    using ne by (simp add: getItem_def storage0_def J0_def)
  have h2: "readable storage0 \<and> writable storage0
      \<and> (\<forall>s p. items storage0 STORAGE_KEY = Some s \<and> s \<noteq> [] \<and> JSON_parse J0 s = Normal (Arr p)
             \<longrightarrow> p = [])
      \<and> fetch_gives (tl DEFAULT_CHANNELS) JSON_SOURCE
          = Normal \<lparr> ok = True, json = Normal (Arr (tl DEFAULT_CHANNELS)) \<rparr>
      \<and> ok \<lparr> ok = True, json = Normal (Arr (tl DEFAULT_CHANNELS)) \<rparr>
      \<and> json \<lparr> ok = True, json = Normal (Arr (tl DEFAULT_CHANNELS)) \<rparr>
          = Normal (Arr (tl DEFAULT_CHANNELS))
      \<and> tl DEFAULT_CHANNELS \<noteq> []"
    using ne by (simp add: storage0_def fetch_gives_def)
  have h3: "readable (storage0\<lparr>items := [STORAGE_KEY \<mapsto> ''not json'']\<rparr>)
      \<and> (\<forall>s p. items (storage0\<lparr>items := [STORAGE_KEY \<mapsto> ''not json'']\<rparr>) STORAGE_KEY = Some s
               \<and> s \<noteq> [] \<and> JSON_parse J0 s = Normal (Arr p) \<longrightarrow> p = [])
      \<and> (\<forall>r cs. fetch_fails JSON_SOURCE = Normal r \<and> ok r \<and> json r = Normal (Arr cs) \<longrightarrow> cs = [])"
    by (auto simp: storage0_def fetch_fails_def J0_def)
  have h4: "\<not> readable storage_denied" by (simp add: storage_denied_def)
  note r = init_priority_order
  have "init J0 fetch_fails (storage0\<lparr>items := [STORAGE_KEY \<mapsto> ''[default]'']\<rparr>)
     = Normal (storage0\<lparr>items := [STORAGE_KEY \<mapsto> ''[default]'']\<rparr>, DEFAULT_CHANNELS)"
    using r [of J0 fetch_fails "storage0\<lparr>items := [STORAGE_KEY \<mapsto> ''[default]'']\<rparr>"] h1 by blast
  moreover have "init J0 (fetch_gives (tl DEFAULT_CHANNELS)) storage0
     = Normal (storage0\<lparr>items := (items storage0)(STORAGE_KEY \<mapsto> JSON_stringify J0 (tl DEFAULT_CHANNELS))\<rparr>,
               tl DEFAULT_CHANNELS)"
    using r [of J0 "fetch_gives (tl DEFAULT_CHANNELS)" storage0] h2 by blast
  moreover have "init J0 fetch_fails (storage0\<lparr>items := [STORAGE_KEY \<mapsto> ''not json'']\<rparr>)
     = Normal (if writable (storage0\<lparr>items := [STORAGE_KEY \<mapsto> ''not json'']\<rparr>)
               then (storage0\<lparr>items := [STORAGE_KEY \<mapsto> ''not json'']\<rparr>)
                      \<lparr>items := (items (storage0\<lparr>items := [STORAGE_KEY \<mapsto> ''not json'']\<rparr>))
                                  (STORAGE_KEY \<mapsto> JSON_stringify J0 DEFAULT_CHANNELS)\<rparr>
               else storage0\<lparr>items := [STORAGE_KEY \<mapsto> ''not json'']\<rparr>,
               DEFAULT_CHANNELS)"
    using r [of J0 fetch_fails "storage0\<lparr>items := [STORAGE_KEY \<mapsto> ''not json'']\<rparr>"] h3 by blast
  moreover have "init J0 (fetch_gives (tl DEFAULT_CHANNELS)) storage_denied
     = Normal (storage_denied, DEFAULT_CHANNELS)"
    using r [of J0 "fetch_gives (tl DEFAULT_CHANNELS)" storage_denied] h4 by blast
  ultimately show ?thesis
    using ne by (simp add: storage0_def J0_def)
qed

text \<open>
  C2, amended. For every non-empty collection, on a storage that can be read and
  written and a platform where \<open>JSON.stringify\<close> of the collection is a non-empty
  text that \<open>JSON.parse\<close> reads back as the collection, \<open>saveAllChannels\<close> stores
  that text under the storage key, and \<open>init\<close> afterwards returns exactly the
  collection and leaves the storage as it is, whatever the fetch would give.
\<close>

theorem saveAllChannels_init_roundtrip:
  "cs \<noteq> [] \<and> readable st \<and> writable st \<and> JSON_stringify J cs \<noteq> []
   \<and> JSON_parse J (JSON_stringify J cs) = Normal (Arr cs)
   \<longrightarrow> items (saveAllChannels J cs st) STORAGE_KEY = Some (JSON_stringify J cs)
     \<and> init J F (saveAllChannels J cs st) = Normal (saveAllChannels J cs st, cs)"
  by (simp add: saveAllChannels_def setItem_def init_def init_try_def getItem_def init_stored_def)

text \<open>
  The claim fails for the empty collection, on a platform where \<open>JSON\<close> round-trips
  it and the storage works: \<open>init\<close> after \<open>saveAllChannels([])\<close> does not return the
  empty collection but moves on to the fetch and the defaults.
\<close>

theorem saveAllChannels_init_roundtrip_counterexample:
  "init J0 fetch_fails (saveAllChannels J0 [] storage0)
     = Normal (storage0\<lparr>items := [STORAGE_KEY \<mapsto> ''[default]'']\<rparr>, DEFAULT_CHANNELS)
   \<and> DEFAULT_CHANNELS \<noteq> []
   \<and> JSON_parse J0 (JSON_stringify J0 []) = Normal (Arr [])"
  by (simp add: saveAllChannels_def setItem_def init_def init_try_def getItem_def init_stored_def
        init_fetch_def fetch_fails_def storage0_def J0_def DEFAULT_CHANNELS_def)

theorem saveAllChannels_init_roundtrip_witness:
  "init J0 fetch_fails (saveAllChannels J0 DEFAULT_CHANNELS storage0)
     = Normal (saveAllChannels J0 DEFAULT_CHANNELS storage0, DEFAULT_CHANNELS)
   \<and> items (saveAllChannels J0 DEFAULT_CHANNELS storage0) STORAGE_KEY = Some ''[default]''"
proof -
  have h: "DEFAULT_CHANNELS \<noteq> [] \<and> readable storage0 \<and> writable storage0
      \<and> JSON_stringify J0 DEFAULT_CHANNELS \<noteq> []
      \<and> JSON_parse J0 (JSON_stringify J0 DEFAULT_CHANNELS) = Normal (Arr DEFAULT_CHANNELS)"
    by (simp add: storage0_def J0_def DEFAULT_CHANNELS_def)
  have s: "JSON_stringify J0 DEFAULT_CHANNELS = ''[default]''"
    by (simp add: J0_def DEFAULT_CHANNELS_def)
  from saveAllChannels_init_roundtrip [of DEFAULT_CHANNELS storage0 J0 fetch_fails] h
  show ?thesis unfolding s by blast
qed

section \<open>The media session\<close>

lemma on_hls_simps [simp]:
  "hlsRef (on_hls c p) = map_option (\<lambda>h. h @ [c]) (hlsRef p)"
  "video (on_hls c p) = video p" "isPlaying (on_hls c p) = isPlaying p"
  "isBuffering (on_hls c p) = isBuffering p" "isMuted (on_hls c p) = isMuted p"
  "volume (on_hls c p) = volume p" "retired (on_hls c p) = retired p"
  "metadata_listeners (on_hls c p) = metadata_listeners p"
  by (simp_all add: on_hls_def)

lemma on_video_simps [simp]:
  "video (on_video cs p) = video p @ cs"
  "hlsRef (on_video cs p) = hlsRef p" "isPlaying (on_video cs p) = isPlaying p"
  "isBuffering (on_video cs p) = isBuffering p" "isMuted (on_video cs p) = isMuted p"
  "volume (on_video cs p) = volume p" "retired (on_video cs p) = retired p"
  "metadata_listeners (on_video cs p) = metadata_listeners p"
  by (simp_all add: on_video_def)

lemma attemptAutoPlay_video:
  "video (attemptAutoPlay E p) =
     video p @ [SetVolume 1, SetMuted False, Play]
       @ (if first_play E = Rejects then [SetMuted True, SetVolume 1, Play] else [])"
  by (cases "first_play E"; cases "second_play E") (simp_all add: attemptAutoPlay_def Let_def)

lemma attemptAutoPlay_isBuffering: "isBuffering (attemptAutoPlay E p) = isBuffering p"
  by (cases "first_play E"; cases "second_play E") (simp_all add: attemptAutoPlay_def Let_def)

lemma attemptAutoPlay_hlsRef: "hlsRef (attemptAutoPlay E p) = hlsRef p"
  by (cases "first_play E"; cases "second_play E") (simp_all add: attemptAutoPlay_def Let_def)

lemma attemptAutoPlay_isPlaying:
  "isPlaying (attemptAutoPlay E p) =
     (case first_play E of
        Undefined \<Rightarrow> isPlaying p
      | Resolves \<Rightarrow> True
      | Rejects \<Rightarrow> second_play E \<noteq> Rejects)"
  by (cases "first_play E"; cases "second_play E") (simp_all add: attemptAutoPlay_def Let_def)

lemma attemptAutoPlay_isMuted: "isMuted (attemptAutoPlay E p) = (first_play E = Rejects)"
  by (cases "first_play E"; cases "second_play E") (simp_all add: attemptAutoPlay_def Let_def)

lemma endsWith_isHlsSource: "endsWith url ''.m3u8'' \<Longrightarrow> isHlsSource url"
  unfolding endsWith_def isHlsSource_def str_includes_sublist
  by (rule suffix_imp_sublist)

lemma attemptAutoPlay_metadata_listeners:
  "metadata_listeners (attemptAutoPlay E p) = metadata_listeners p"
  by (cases "first_play E"; cases "second_play E") (simp_all add: attemptAutoPlay_def Let_def)

lemma autoplay_playing_idem: "autoplay_playing E (autoplay_playing E b) = autoplay_playing E b"
  by (cases "first_play E") (simp_all add: autoplay_playing_def)

lemma onLoadedMetadata_fields:
  "video (onLoadedMetadata E p) = video p @ autoplay_calls E"
  "isPlaying (onLoadedMetadata E p) = autoplay_playing E (isPlaying p)"
  "isMuted (onLoadedMetadata E p) = (first_play E = Rejects)"
  "isBuffering (onLoadedMetadata E p) = False"
  "metadata_listeners (onLoadedMetadata E p) = metadata_listeners p"
  "hlsRef (onLoadedMetadata E p) = hlsRef p"
  by (simp_all add: onLoadedMetadata_def attemptAutoPlay_video attemptAutoPlay_isPlaying
        attemptAutoPlay_isMuted attemptAutoPlay_isBuffering attemptAutoPlay_metadata_listeners
        attemptAutoPlay_hlsRef autoplay_calls_def autoplay_playing_def
      split: play_result.splits)

text \<open>Several one-shot listeners in a row: \<open>n\<close> autoplay attempts.\<close>

lemma onLoadedMetadata_funpow_video:
  "video ((onLoadedMetadata E ^^ n) p) = video p @ concat (replicate n (autoplay_calls E))"
  by (induction n arbitrary: p) (simp_all add: funpow_swap1 onLoadedMetadata_fields)

lemma onLoadedMetadata_funpow_listeners:
  "metadata_listeners ((onLoadedMetadata E ^^ n) p) = metadata_listeners p"
  by (induction n) (simp_all add: onLoadedMetadata_fields)

lemma onLoadedMetadata_funpow_flags:
  "0 < n \<Longrightarrow> isPlaying ((onLoadedMetadata E ^^ n) p) = autoplay_playing E (isPlaying p)
     \<and> isMuted ((onLoadedMetadata E ^^ n) p) = (first_play E = Rejects)
     \<and> isBuffering ((onLoadedMetadata E ^^ n) p) = False"
proof (induction n)
  case 0
  then show ?case by simp
next
  case (Suc n)
  show ?case
  proof (cases "n = 0")
    case True
    then show ?thesis by (simp add: onLoadedMetadata_fields)
  next
    case False
    with Suc.IH show ?thesis
      by (simp add: onLoadedMetadata_fields autoplay_playing_idem)
  qed
qed

text \<open>
  C3, amended. In the error handler of the streaming client, a fatal network error
  calls \<open>startLoad\<close> on the instance, a fatal media error calls
  \<open>recoverMediaError\<close>, a fatal error of any other type destroys the instance, and
  a non-fatal error of any type changes nothing. The handler never calls the video
  element and never changes the play flag, the buffering flag or the play overlay.
\<close>

theorem on_ERROR_fatal_only:
  "(fatal d \<and> etype d = NETWORK_ERROR \<longrightarrow>
      hlsRef (on_ERROR d p) = map_option (\<lambda>h. h @ [StartLoad]) (hlsRef p))
   \<and> (fatal d \<and> etype d = MEDIA_ERROR \<longrightarrow>
      hlsRef (on_ERROR d p) = map_option (\<lambda>h. h @ [RecoverMediaError]) (hlsRef p))
   \<and> (fatal d \<and> etype d \<noteq> NETWORK_ERROR \<and> etype d \<noteq> MEDIA_ERROR \<longrightarrow>
      hlsRef (on_ERROR d p) = map_option (\<lambda>h. h @ [Destroy]) (hlsRef p))
   \<and> (\<not> fatal d \<longrightarrow> on_ERROR d p = p)
   \<and> video (on_ERROR d p) = video p
   \<and> isPlaying (on_ERROR d p) = isPlaying p
   \<and> isBuffering (on_ERROR d p) = isBuffering p
   \<and> play_overlay (on_ERROR d p) = play_overlay p"
  by (cases "etype d") (simp_all add: on_ERROR_def play_overlay_def)

text \<open>
  The claim fails on a loaded adaptive channel: a non-fatal network error and a
  non-fatal media error reach the handler and change nothing (no reload, no decoder
  recovery), a fatal network error is answered by \<open>startLoad\<close> and not by tearing the
  session down, and after a fatal error of another type the play flag is still true.
\<close>

theorem on_ERROR_fatal_only_counterexample:
  "hls_listening (load_channel env_hls (DEFAULT_CHANNELS ! 0) VideoPlayer_initial)
   \<and> dispatch env_hls (HlsError \<lparr>fatal = False, etype = NETWORK_ERROR\<rparr>)
        (load_channel env_hls (DEFAULT_CHANNELS ! 0) VideoPlayer_initial)
      = load_channel env_hls (DEFAULT_CHANNELS ! 0) VideoPlayer_initial
   \<and> hlsRef (dispatch env_hls (HlsError \<lparr>fatal = False, etype = MEDIA_ERROR\<rparr>)
        (load_channel env_hls (DEFAULT_CHANNELS ! 0) VideoPlayer_initial))
      = Some [LoadSource LIVE_STREAM_URL, AttachMedia]
   \<and> hlsRef (dispatch env_hls (HlsError \<lparr>fatal = True, etype = NETWORK_ERROR\<rparr>)
        (load_channel env_hls (DEFAULT_CHANNELS ! 0) VideoPlayer_initial))
      = Some [LoadSource LIVE_STREAM_URL, AttachMedia, StartLoad]
   \<and> isPlaying (dispatch env_hls (HlsError \<lparr>fatal = True, etype = OTHER_ERROR\<rparr>)
        (dispatch env_hls VideoPlay
          (load_channel env_hls (DEFAULT_CHANNELS ! 0) VideoPlayer_initial)))"
  by (simp add: load_channel_def Let_def isHlsSource_def DEFAULT_CHANNELS_def LIVE_STREAM_URL_def
      env_hls_def VideoPlayer_initial_def hls_listening_def on_ERROR_def on_hls_def on_video_def)

theorem on_ERROR_fatal_only_witness:
  "hlsRef (on_ERROR \<lparr>fatal = True, etype = NETWORK_ERROR\<rparr>
      (load_channel env_hls (DEFAULT_CHANNELS ! 0) VideoPlayer_initial))
     = Some [LoadSource LIVE_STREAM_URL, AttachMedia, StartLoad]
   \<and> hlsRef (on_ERROR \<lparr>fatal = True, etype = MEDIA_ERROR\<rparr>
      (load_channel env_hls (DEFAULT_CHANNELS ! 0) VideoPlayer_initial))
     = Some [LoadSource LIVE_STREAM_URL, AttachMedia, RecoverMediaError]
   \<and> hlsRef (on_ERROR \<lparr>fatal = True, etype = MUX_ERROR\<rparr>
      (load_channel env_hls (DEFAULT_CHANNELS ! 0) VideoPlayer_initial))
     = Some [LoadSource LIVE_STREAM_URL, AttachMedia, Destroy]
   \<and> on_ERROR \<lparr>fatal = False, etype = NETWORK_ERROR\<rparr>
      (load_channel env_hls (DEFAULT_CHANNELS ! 0) VideoPlayer_initial)
     = load_channel env_hls (DEFAULT_CHANNELS ! 0) VideoPlayer_initial"
proof -
  let ?p = "load_channel env_hls (DEFAULT_CHANNELS ! 0) VideoPlayer_initial"
  have p: "hlsRef ?p = Some [LoadSource LIVE_STREAM_URL, AttachMedia]"
    by (simp add: load_channel_def Let_def isHlsSource_def DEFAULT_CHANNELS_def LIVE_STREAM_URL_def
      env_hls_def VideoPlayer_initial_def)
  note r = on_ERROR_fatal_only
  have "hlsRef (on_ERROR \<lparr>fatal = True, etype = NETWORK_ERROR\<rparr> ?p)
      = map_option (\<lambda>h. h @ [StartLoad]) (hlsRef ?p)"
    using r [of "\<lparr>fatal = True, etype = NETWORK_ERROR\<rparr>" ?p] by simp
  moreover have "hlsRef (on_ERROR \<lparr>fatal = True, etype = MEDIA_ERROR\<rparr> ?p)
      = map_option (\<lambda>h. h @ [RecoverMediaError]) (hlsRef ?p)"
    using r [of "\<lparr>fatal = True, etype = MEDIA_ERROR\<rparr>" ?p] by simp
  moreover have "hlsRef (on_ERROR \<lparr>fatal = True, etype = MUX_ERROR\<rparr> ?p)
      = map_option (\<lambda>h. h @ [Destroy]) (hlsRef ?p)"
    using r [of "\<lparr>fatal = True, etype = MUX_ERROR\<rparr>" ?p] by simp
  moreover have "on_ERROR \<lparr>fatal = False, etype = NETWORK_ERROR\<rparr> ?p = ?p"
    using r [of "\<lparr>fatal = False, etype = NETWORK_ERROR\<rparr>" ?p] by simp
  ultimately show ?thesis by (simp add: p)
qed

text \<open>
  C6, amended. A channel is treated as an adaptive source exactly when its URL
  contains \<open>.m3u8\<close> anywhere; in particular every URL ending in \<open>.m3u8\<close> is. For
  every other URL the effect sets the video source to the URL, calls \<open>load\<close> and
  only then attempts playback, and attaches no streaming client. For an adaptive
  source with the streaming client supported, the effect sets no video source and
  loads the URL into a new instance of the client.
\<close>

theorem isHlsSource_classification:
  "(isHlsSource url \<longleftrightarrow> sublist ''.m3u8'' url)
   \<and> (endsWith url ''.m3u8'' \<longrightarrow> isHlsSource url)
   \<and> (\<not> isHlsSource (videoUrl ch) \<longrightarrow>
        video (load_channel E ch p) =
          video p @ [SetVolume 1, SetSrc (videoUrl ch), Load, SetVolume 1, SetMuted False, Play]
            @ (if first_play E = Rejects then [SetMuted True, SetVolume 1, Play] else [])
        \<and> hlsRef (load_channel E ch p) = None)
   \<and> (isHlsSource (videoUrl ch) \<and> Hls_isSupported E \<longrightarrow>
        video (load_channel E ch p) = video p @ [SetVolume 1]
        \<and> hlsRef (load_channel E ch p) = Some [LoadSource (videoUrl ch), AttachMedia])"
proof (intro conjI impI)
  show "isHlsSource url \<longleftrightarrow> sublist ''.m3u8'' url"
    by (simp add: isHlsSource_def str_includes_sublist)
next
  assume "endsWith url ''.m3u8''"
  then show "isHlsSource url" by (rule endsWith_isHlsSource)
next
  assume "\<not> isHlsSource (videoUrl ch)"
  then show "video (load_channel E ch p) =
          video p @ [SetVolume 1, SetSrc (videoUrl ch), Load, SetVolume 1, SetMuted False, Play]
            @ (if first_play E = Rejects then [SetMuted True, SetVolume 1, Play] else [])"
    by (cases "hlsRef p") (simp_all add: load_channel_def Let_def attemptAutoPlay_video)
next
  assume "\<not> isHlsSource (videoUrl ch)"
  then show "hlsRef (load_channel E ch p) = None"
    by (cases "hlsRef p") (simp_all add: load_channel_def Let_def attemptAutoPlay_hlsRef)
next
  assume "isHlsSource (videoUrl ch) \<and> Hls_isSupported E"
  then show "video (load_channel E ch p) = video p @ [SetVolume 1]"
    by (cases "hlsRef p") (simp_all add: load_channel_def Let_def)
next
  assume "isHlsSource (videoUrl ch) \<and> Hls_isSupported E"
  then show "hlsRef (load_channel E ch p) = Some [LoadSource (videoUrl ch), AttachMedia]"
    by (cases "hlsRef p") (simp_all add: load_channel_def Let_def)
qed

text \<open>
  The claim fails for a manifest URL with a query string: it does not end in the
  extension and is yet treated as an adaptive source; the video source is not set
  and no load is issued.
\<close>

theorem isHlsSource_classification_counterexample:
  "\<not> endsWith (videoUrl signed_channel) ''.m3u8''
   \<and> isHlsSource (videoUrl signed_channel)
   \<and> video (load_channel env_hls signed_channel VideoPlayer_initial) = [SetVolume 1]
   \<and> hlsRef (load_channel env_hls signed_channel VideoPlayer_initial)
       = Some [LoadSource ''https://cdn.example/live.m3u8?token=1'', AttachMedia]"
  by (simp add: endsWith_def suffix_to_prefix isHlsSource_def signed_channel_def load_channel_def
        Let_def env_hls_def VideoPlayer_initial_def on_video_def)

theorem isHlsSource_classification_witness:
  "isHlsSource LIVE_STREAM_URL
   \<and> video (load_channel env_hls mp4_channel VideoPlayer_initial)
       = [SetVolume 1, SetSrc ''https://storage.googleapis.com/gtv-videos-bucket/sample/Sintel.mp4'',
          Load, SetVolume 1, SetMuted False, Play, SetMuted True, SetVolume 1, Play]
   \<and> hlsRef (load_channel env_hls mp4_channel VideoPlayer_initial) = None
   \<and> hlsRef (load_channel env_hls (DEFAULT_CHANNELS ! 0) VideoPlayer_initial)
       = Some [LoadSource LIVE_STREAM_URL, AttachMedia]"
proof -
  have h1: "endsWith LIVE_STREAM_URL ''.m3u8''"
    by (simp add: endsWith_def suffix_to_prefix LIVE_STREAM_URL_def)
  have h2: "\<not> isHlsSource (videoUrl mp4_channel)"
    by (simp add: isHlsSource_def mp4_channel_def)
  have u: "videoUrl mp4_channel = ''https://storage.googleapis.com/gtv-videos-bucket/sample/Sintel.mp4''"
    "videoUrl (DEFAULT_CHANNELS ! 0) = LIVE_STREAM_URL"
    "first_play env_hls = Rejects" "Hls_isSupported env_hls" "video VideoPlayer_initial = []"
    by (simp_all add: mp4_channel_def DEFAULT_CHANNELS_def env_hls_def VideoPlayer_initial_def)
  note r = isHlsSource_classification
  have a: "isHlsSource LIVE_STREAM_URL"
    using r [of LIVE_STREAM_URL] h1 by blast
  have b: "video (load_channel env_hls mp4_channel VideoPlayer_initial) =
          video VideoPlayer_initial
            @ [SetVolume 1, SetSrc (videoUrl mp4_channel), Load, SetVolume 1, SetMuted False, Play]
            @ (if first_play env_hls = Rejects then [SetMuted True, SetVolume 1, Play] else [])
        \<and> hlsRef (load_channel env_hls mp4_channel VideoPlayer_initial) = None"
    using r [of _ mp4_channel env_hls VideoPlayer_initial] h2 by blast
  have c: "hlsRef (load_channel env_hls (DEFAULT_CHANNELS ! 0) VideoPlayer_initial)
       = Some [LoadSource (videoUrl (DEFAULT_CHANNELS ! 0)), AttachMedia]"
    using r [of _ "DEFAULT_CHANNELS ! 0" env_hls VideoPlayer_initial] a u(2,4) by simp
  from a b c show ?thesis by (simp add: u)
qed

text \<open>
  C8, amended. Whenever autoplay is attempted on a channel load, playback is attempted
  unmuted first, retried muted after a rejection, and left paused after a second
  rejection. In full: one run of \<open>attemptAutoPlay\<close> sets the volume, unmutes and calls
  \<open>play\<close>; if that call is rejected it mutes, sets the volume and calls \<open>play\<close> again,
  and makes no second call otherwise. It leaves the buffering flag as it is. If the
  first call resolves, the player is playing and unmuted; if the first is rejected and
  the second is not, it is playing and muted; if both are rejected, it is not playing
  (and muted). The attempt is made, for every outcome of the calls of \<open>play\<close>:
  at once on the load of a progressive source, after the source is set and loaded;
  on \<open>MANIFEST_PARSED\<close> for a source attached to the streaming client, whose load
  itself sets no source and calls no \<open>play\<close>; and on \<open>loadedmetadata\<close> for a
  natively played adaptive source, whose load sets the source and registers one more
  one-shot listener, each registered listener making one attempt. A manifest event
  without a live instance and a metadata event without a registered listener change
  nothing. On the two adaptive paths the buffering flag is cleared before the
  attempt, so that after two rejections the play overlay is shown. For an adaptive
  source with neither the streaming client nor native support the load attempts no
  playback and registers nothing.
\<close>

theorem attemptAutoPlay_fallback:
  "video (attemptAutoPlay E p) = video p @ autoplay_calls E
   \<and> isPlaying (attemptAutoPlay E p) = autoplay_playing E (isPlaying p)
   \<and> isMuted (attemptAutoPlay E p) = (first_play E = Rejects)
   \<and> isBuffering (attemptAutoPlay E p) = isBuffering p
   \<and> (first_play E = Resolves \<longrightarrow>
        isPlaying (attemptAutoPlay E p) \<and> \<not> isMuted (attemptAutoPlay E p))
   \<and> (first_play E = Rejects \<and> second_play E \<noteq> Rejects \<longrightarrow>
        isPlaying (attemptAutoPlay E p) \<and> isMuted (attemptAutoPlay E p))
   \<and> (first_play E = Rejects \<and> second_play E = Rejects \<longrightarrow>
        \<not> isPlaying (attemptAutoPlay E p) \<and> isMuted (attemptAutoPlay E p))
   \<and> (\<not> isHlsSource (videoUrl ch) \<longrightarrow>
        video (load_channel E ch p)
          = video p @ [SetVolume 1, SetSrc (videoUrl ch), Load] @ autoplay_calls E
        \<and> isPlaying (load_channel E ch p) = autoplay_playing E (isPlaying p)
        \<and> isMuted (load_channel E ch p) = (first_play E = Rejects)
        \<and> metadata_listeners (load_channel E ch p) = metadata_listeners p)
   \<and> (isHlsSource (videoUrl ch) \<and> Hls_isSupported E \<longrightarrow>
        video (load_channel E ch p) = video p @ [SetVolume 1]
        \<and> hls_listening (load_channel E ch p)
        \<and> isPlaying (load_channel E ch p) = isPlaying p
        \<and> metadata_listeners (load_channel E ch p) = metadata_listeners p)
   \<and> (hls_listening p \<longrightarrow>
        video (dispatch E ManifestParsed p) = video p @ autoplay_calls E
        \<and> isPlaying (dispatch E ManifestParsed p) = autoplay_playing E (isPlaying p)
        \<and> isMuted (dispatch E ManifestParsed p) = (first_play E = Rejects)
        \<and> \<not> isBuffering (dispatch E ManifestParsed p))
   \<and> (\<not> hls_listening p \<longrightarrow> dispatch E ManifestParsed p = p)
   \<and> (isHlsSource (videoUrl ch) \<and> \<not> Hls_isSupported E \<and> canPlayType E \<longrightarrow>
        video (load_channel E ch p) = video p @ [SetVolume 1, SetSrc (videoUrl ch)]
        \<and> \<not> hls_listening (load_channel E ch p)
        \<and> isPlaying (load_channel E ch p) = isPlaying p
        \<and> metadata_listeners (load_channel E ch p) = Suc (metadata_listeners p))
   \<and> video (dispatch E LoadedMetadata p)
        = video p @ concat (replicate (metadata_listeners p) (autoplay_calls E))
   \<and> metadata_listeners (dispatch E LoadedMetadata p) = 0
   \<and> (0 < metadata_listeners p \<longrightarrow>
        isPlaying (dispatch E LoadedMetadata p) = autoplay_playing E (isPlaying p)
        \<and> isMuted (dispatch E LoadedMetadata p) = (first_play E = Rejects)
        \<and> \<not> isBuffering (dispatch E LoadedMetadata p))
   \<and> (metadata_listeners p = 0 \<longrightarrow> dispatch E LoadedMetadata p = p)
   \<and> (first_play E = Rejects \<and> second_play E = Rejects \<and> hls_listening p \<longrightarrow>
        play_overlay (dispatch E ManifestParsed p))
   \<and> (first_play E = Rejects \<and> second_play E = Rejects \<and> 0 < metadata_listeners p \<longrightarrow>
        play_overlay (dispatch E LoadedMetadata p))
   \<and> (isHlsSource (videoUrl ch) \<and> \<not> Hls_isSupported E \<and> \<not> canPlayType E \<longrightarrow>
        video (load_channel E ch p) = video p @ [SetVolume 1]
        \<and> \<not> hls_listening (load_channel E ch p)
        \<and> metadata_listeners (load_channel E ch p) = metadata_listeners p)"
proof -
  have A: "video (attemptAutoPlay E p) = video p @ autoplay_calls E"
    "isPlaying (attemptAutoPlay E p) = autoplay_playing E (isPlaying p)"
    "isMuted (attemptAutoPlay E p) = (first_play E = Rejects)"
    "isBuffering (attemptAutoPlay E p) = isBuffering p"
    by (simp_all add: attemptAutoPlay_video attemptAutoPlay_isPlaying attemptAutoPlay_isMuted
          attemptAutoPlay_isBuffering autoplay_calls_def autoplay_playing_def)
  have A1: "isPlaying (attemptAutoPlay E p) \<and> \<not> isMuted (attemptAutoPlay E p)"
    if "first_play E = Resolves"
    using that by (simp add: attemptAutoPlay_isPlaying attemptAutoPlay_isMuted)
  have A2: "isPlaying (attemptAutoPlay E p) \<and> isMuted (attemptAutoPlay E p)"
    if "first_play E = Rejects \<and> second_play E \<noteq> Rejects"
    using that by (simp add: attemptAutoPlay_isPlaying attemptAutoPlay_isMuted)
  have A3: "\<not> isPlaying (attemptAutoPlay E p) \<and> isMuted (attemptAutoPlay E p)"
    if "first_play E = Rejects \<and> second_play E = Rejects"
    using that by (simp add: attemptAutoPlay_isPlaying attemptAutoPlay_isMuted)
  have B: "video (load_channel E ch p)
          = video p @ [SetVolume 1, SetSrc (videoUrl ch), Load] @ autoplay_calls E
        \<and> isPlaying (load_channel E ch p) = autoplay_playing E (isPlaying p)
        \<and> isMuted (load_channel E ch p) = (first_play E = Rejects)
        \<and> metadata_listeners (load_channel E ch p) = metadata_listeners p"
    if "\<not> isHlsSource (videoUrl ch)"
    using that
    by (cases "hlsRef p")
       (simp_all add: load_channel_def Let_def attemptAutoPlay_video attemptAutoPlay_isPlaying
          attemptAutoPlay_isMuted attemptAutoPlay_metadata_listeners autoplay_calls_def
          autoplay_playing_def split: play_result.splits)
  have C: "video (load_channel E ch p) = video p @ [SetVolume 1]
        \<and> hls_listening (load_channel E ch p)
        \<and> isPlaying (load_channel E ch p) = isPlaying p
        \<and> metadata_listeners (load_channel E ch p) = metadata_listeners p"
    if "isHlsSource (videoUrl ch) \<and> Hls_isSupported E"
    using that by (cases "hlsRef p") (simp_all add: load_channel_def Let_def hls_listening_def)
  have D: "video (dispatch E ManifestParsed p) = video p @ autoplay_calls E
        \<and> isPlaying (dispatch E ManifestParsed p) = autoplay_playing E (isPlaying p)
        \<and> isMuted (dispatch E ManifestParsed p) = (first_play E = Rejects)
        \<and> \<not> isBuffering (dispatch E ManifestParsed p)"
    if "hls_listening p"
    using that
    by (simp add: on_MANIFEST_PARSED_def attemptAutoPlay_video attemptAutoPlay_isPlaying
          attemptAutoPlay_isMuted attemptAutoPlay_isBuffering autoplay_calls_def
          autoplay_playing_def split: play_result.splits)
  have D0: "dispatch E ManifestParsed p = p" if "\<not> hls_listening p"
    using that by simp
  have N: "video (load_channel E ch p) = video p @ [SetVolume 1, SetSrc (videoUrl ch)]
        \<and> \<not> hls_listening (load_channel E ch p)
        \<and> isPlaying (load_channel E ch p) = isPlaying p
        \<and> metadata_listeners (load_channel E ch p) = Suc (metadata_listeners p)"
    if "isHlsSource (videoUrl ch) \<and> \<not> Hls_isSupported E \<and> canPlayType E"
    using that by (cases "hlsRef p") (simp_all add: load_channel_def Let_def hls_listening_def)
  have M: "video (dispatch E LoadedMetadata p)
        = video p @ concat (replicate (metadata_listeners p) (autoplay_calls E))"
    "metadata_listeners (dispatch E LoadedMetadata p) = 0"
    by (simp_all add: onLoadedMetadata_funpow_video onLoadedMetadata_funpow_listeners)
  have M1: "isPlaying (dispatch E LoadedMetadata p) = autoplay_playing E (isPlaying p)
        \<and> isMuted (dispatch E LoadedMetadata p) = (first_play E = Rejects)
        \<and> \<not> isBuffering (dispatch E LoadedMetadata p)"
    if "0 < metadata_listeners p"
    using onLoadedMetadata_funpow_flags [OF that, of E "p\<lparr>metadata_listeners := 0\<rparr>"]
    by simp
  have M0: "dispatch E LoadedMetadata p = p" if "metadata_listeners p = 0"
    using that by simp
  have O1: "play_overlay (dispatch E ManifestParsed p)"
    if "first_play E = Rejects \<and> second_play E = Rejects \<and> hls_listening p"
    using that D by (simp add: play_overlay_def autoplay_playing_def)
  have O2: "play_overlay (dispatch E LoadedMetadata p)"
    if "first_play E = Rejects \<and> second_play E = Rejects \<and> 0 < metadata_listeners p"
    using that M1 by (simp add: play_overlay_def autoplay_playing_def)
  have U: "video (load_channel E ch p) = video p @ [SetVolume 1]
        \<and> \<not> hls_listening (load_channel E ch p)
        \<and> metadata_listeners (load_channel E ch p) = metadata_listeners p"
    if "isHlsSource (videoUrl ch) \<and> \<not> Hls_isSupported E \<and> \<not> canPlayType E"
    using that by (cases "hlsRef p") (simp_all add: load_channel_def Let_def hls_listening_def)
  from A A1 A2 A3 B C D D0 N M M1 M0 O1 O2 U show ?thesis by blast
qed

text \<open>
  The claim that playback is attempted on every channel load fails for an adaptive
  source in a browser with neither the streaming client nor native support: the load
  makes no call of \<open>play\<close>, and no later event of the manifest or the metadata
  reaches a handler that would.
\<close>

theorem attemptAutoPlay_fallback_counterexample:
  "isHlsSource (videoUrl (DEFAULT_CHANNELS ! 0))
   \<and> video (load_channel env_none (DEFAULT_CHANNELS ! 0) VideoPlayer_initial) = [SetVolume 1]
   \<and> dispatch env_none ManifestParsed (load_channel env_none (DEFAULT_CHANNELS ! 0) VideoPlayer_initial)
       = load_channel env_none (DEFAULT_CHANNELS ! 0) VideoPlayer_initial
   \<and> dispatch env_none LoadedMetadata (load_channel env_none (DEFAULT_CHANNELS ! 0) VideoPlayer_initial)
       = load_channel env_none (DEFAULT_CHANNELS ! 0) VideoPlayer_initial"
  by (simp add: isHlsSource_def DEFAULT_CHANNELS_def LIVE_STREAM_URL_def load_channel_def Let_def
        env_none_def VideoPlayer_initial_def on_video_def hls_listening_def)

theorem attemptAutoPlay_fallback_witness:
  "video (attemptAutoPlay env_native VideoPlayer_initial)
     = [SetVolume 1, SetMuted False, Play, SetMuted True, SetVolume 1, Play]
   \<and> isPlaying (attemptAutoPlay env_native VideoPlayer_initial)
   \<and> isMuted (attemptAutoPlay env_native VideoPlayer_initial)
   \<and> isPlaying (attemptAutoPlay env_none VideoPlayer_initial)
   \<and> \<not> isMuted (attemptAutoPlay env_none VideoPlayer_initial)
   \<and> \<not> isPlaying (attemptAutoPlay env_hls VideoPlayer_initial)
   \<and> video (load_channel env_none mp4_channel VideoPlayer_initial)
       = [SetVolume 1, SetSrc (videoUrl mp4_channel), Load, SetVolume 1, SetMuted False, Play]
   \<and> isPlaying (load_channel env_none mp4_channel VideoPlayer_initial)
   \<and> video (dispatch env_hls ManifestParsed
        (load_channel env_hls (DEFAULT_CHANNELS ! 0) VideoPlayer_initial))
       = [SetVolume 1, SetVolume 1, SetMuted False, Play, SetMuted True, SetVolume 1, Play]
   \<and> play_overlay (dispatch env_hls ManifestParsed
        (load_channel env_hls (DEFAULT_CHANNELS ! 0) VideoPlayer_initial))
   \<and> dispatch env_hls ManifestParsed VideoPlayer_initial = VideoPlayer_initial
   \<and> metadata_listeners (load_channel env_native (DEFAULT_CHANNELS ! 0)
        (load_channel env_native (DEFAULT_CHANNELS ! 0) VideoPlayer_initial)) = 2
   \<and> video (dispatch env_native LoadedMetadata
        (load_channel env_native (DEFAULT_CHANNELS ! 0) VideoPlayer_initial))
       = [SetVolume 1, SetSrc LIVE_STREAM_URL,
          SetVolume 1, SetMuted False, Play, SetMuted True, SetVolume 1, Play]
   \<and> isPlaying (dispatch env_native LoadedMetadata
        (load_channel env_native (DEFAULT_CHANNELS ! 0) VideoPlayer_initial))
   \<and> play_overlay (dispatch (env_native\<lparr>second_play := Rejects\<rparr>) LoadedMetadata
        (load_channel env_native (DEFAULT_CHANNELS ! 0) VideoPlayer_initial))
   \<and> dispatch env_native LoadedMetadata VideoPlayer_initial = VideoPlayer_initial
   \<and> video (load_channel env_none (DEFAULT_CHANNELS ! 0) VideoPlayer_initial) = [SetVolume 1]"
proof -
  let ?E = "env_native\<lparr>second_play := Rejects\<rparr>"
  let ?c = "DEFAULT_CHANNELS ! 0"
  let ?i = VideoPlayer_initial
  have e: "first_play env_native = Rejects \<and> second_play env_native \<noteq> Rejects"
    "first_play env_none = Resolves" "first_play env_hls = Rejects \<and> second_play env_hls = Rejects"
    "first_play ?E = Rejects \<and> second_play ?E = Rejects"
    "\<not> Hls_isSupported env_none \<and> \<not> canPlayType env_none"
    "Hls_isSupported env_hls" "\<not> Hls_isSupported env_native \<and> canPlayType env_native"
    by (simp_all add: env_native_def env_none_def env_hls_def)
  have u: "\<not> isHlsSource (videoUrl mp4_channel)" "isHlsSource (videoUrl ?c)"
    "videoUrl ?c = LIVE_STREAM_URL"
    by (simp_all add: isHlsSource_def mp4_channel_def DEFAULT_CHANNELS_def LIVE_STREAM_URL_def)
  have i: "video ?i = []" "\<not> isPlaying ?i" "metadata_listeners ?i = 0" "\<not> hls_listening ?i"
    by (simp_all add: VideoPlayer_initial_def hls_listening_def)
  have c: "autoplay_calls env_native = [SetVolume 1, SetMuted False, Play, SetMuted True, SetVolume 1, Play]"
    "autoplay_calls env_hls = [SetVolume 1, SetMuted False, Play, SetMuted True, SetVolume 1, Play]"
    "autoplay_calls env_none = [SetVolume 1, SetMuted False, Play]"
    "autoplay_playing env_native False" "autoplay_playing env_none False"
    by (simp_all add: autoplay_calls_def autoplay_playing_def env_native_def env_hls_def env_none_def)
  note r = attemptAutoPlay_fallback
  have w1: "video (attemptAutoPlay env_native ?i) = video ?i @ autoplay_calls env_native
    \<and> isPlaying (attemptAutoPlay env_native ?i) \<and> isMuted (attemptAutoPlay env_native ?i)"
    using r [of env_native ?i] e(1) by blast
  have w2: "isPlaying (attemptAutoPlay env_none ?i) \<and> \<not> isMuted (attemptAutoPlay env_none ?i)"
    using r [of env_none ?i] e(2) by blast
  have w3: "\<not> isPlaying (attemptAutoPlay env_hls ?i)"
    using r [of env_hls ?i] e(3) by blast
  have w4: "video (load_channel env_none mp4_channel ?i)
          = video ?i @ [SetVolume 1, SetSrc (videoUrl mp4_channel), Load] @ autoplay_calls env_none
        \<and> isPlaying (load_channel env_none mp4_channel ?i) = autoplay_playing env_none (isPlaying ?i)"
    using r [of env_none ?i mp4_channel] u(1) by blast
  have w5: "video (load_channel env_hls ?c ?i) = video ?i @ [SetVolume 1]
        \<and> hls_listening (load_channel env_hls ?c ?i)"
    using r [of env_hls ?i ?c] u(2) e(6) by blast
  have w6: "video (dispatch env_hls ManifestParsed (load_channel env_hls ?c ?i))
          = video (load_channel env_hls ?c ?i) @ autoplay_calls env_hls
        \<and> play_overlay (dispatch env_hls ManifestParsed (load_channel env_hls ?c ?i))"
    using r [of env_hls "load_channel env_hls ?c ?i"] w5 e(3) by blast
  have w7: "dispatch env_hls ManifestParsed ?i = ?i"
    using r [of env_hls ?i] i(4) by blast
  have w8: "video (load_channel env_native ?c ?i) = video ?i @ [SetVolume 1, SetSrc (videoUrl ?c)]
        \<and> isPlaying (load_channel env_native ?c ?i) = isPlaying ?i
        \<and> metadata_listeners (load_channel env_native ?c ?i) = Suc (metadata_listeners ?i)"
    using r [of env_native ?i ?c] u(2) e(7) by blast
  have w9: "metadata_listeners (load_channel env_native ?c (load_channel env_native ?c ?i))
        = Suc (metadata_listeners (load_channel env_native ?c ?i))"
    using r [of env_native "load_channel env_native ?c ?i" ?c] u(2) e(7) by blast
  have l: "0 < metadata_listeners (load_channel env_native ?c ?i)"
    using w8 by simp
  have w10: "video (dispatch env_native LoadedMetadata (load_channel env_native ?c ?i))
        = video (load_channel env_native ?c ?i)
            @ concat (replicate (metadata_listeners (load_channel env_native ?c ?i))
                (autoplay_calls env_native))
      \<and> isPlaying (dispatch env_native LoadedMetadata (load_channel env_native ?c ?i))
        = autoplay_playing env_native (isPlaying (load_channel env_native ?c ?i))"
    using r [of env_native "load_channel env_native ?c ?i"] l by blast
  have w11: "play_overlay (dispatch ?E LoadedMetadata (load_channel env_native ?c ?i))"
    using r [of ?E "load_channel env_native ?c ?i"] e(4) l by blast
  have w12: "dispatch env_native LoadedMetadata ?i = ?i"
    using r [of env_native ?i] i(3) by blast
  have w13: "video (load_channel env_none ?c ?i) = video ?i @ [SetVolume 1]"
    using r [of env_none ?i ?c] e(5) u(2) by blast
  from w1 w2 w3 w4 w5 w6 w7 w8 w9 w10 w11 w12 w13 show ?thesis
    by (simp add: i c u(3))
qed

section \<open>The voice session\<close>

text \<open>
  \<open>disconnect\<close> itself releases what the service holds: it stops the tracks of the
  service's stream, closes its session, stops every buffer source of its set, and
  clears the fields.
\<close>

lemma disconnect_releases:
  "stream (fst (disconnect (s, n))) = None
   \<and> session (fst (disconnect (s, n))) = None
   \<and> sources (fst (disconnect (s, n))) = {}
   \<and> live_streams (snd (disconnect (s, n))) = live_streams n - set_option (stream s)
   \<and> open_sessions (snd (disconnect (s, n))) = open_sessions n - set_option (session s)
   \<and> started_sources (snd (disconnect (s, n))) = started_sources n - sources s"
  by (auto simp: disconnect_def stopAudioOutput_def Let_def split: option.splits)

lemmas voice_defs =
  toggleConnection_def connect_def disconnect_def stopAudioOutput_def onclose_def onerror_def
  onmessage_audio_def voice_initial_def GeminiLiveService_new_def released_def Let_def

text \<open>
  C5 asks that the release is guaranteed on every exit path of a session. The code
  releases on the explicit stop only. After a successful connect, the \<open>onclose\<close>
  callback (the session closed) and the \<open>onerror\<close> callback (a transport error) set
  the status and nothing else: the microphone stream 2 of the service stays live and
  a buffer source that was started stays started. A click on the button then connects
  anew, since the status is no longer connected, and overwrites the fields; the explicit
  stop after that releases the second stream and leaves the first one live, with no
  reference to it left. The explicit stop of a connected session releases everything.
\<close>

theorem session_close_and_error_release_nothing:
  "status (fst (onclose (toggleConnection True True voice_initial))) = DISCONNECTED
   \<and> stream (fst (snd (onclose (toggleConnection True True voice_initial)))) = Some 2
   \<and> live_streams (snd (snd (onclose (toggleConnection True True voice_initial)))) = {2}
   \<and> \<not> released (onclose (toggleConnection True True voice_initial))
   \<and> status (fst (onerror (toggleConnection True True voice_initial))) = ERROR
   \<and> live_streams (snd (snd (onerror (toggleConnection True True voice_initial)))) = {2}
   \<and> \<not> released (onerror (toggleConnection True True voice_initial))
   \<and> started_sources (snd (snd (onclose (onmessage_audio 0 1 (toggleConnection True True voice_initial))))) = {6}
   \<and> released (toggleConnection True True (onmessage_audio 0 1 (toggleConnection True True voice_initial)))
   \<and> live_streams (snd (snd (toggleConnection True True (toggleConnection True True
        (onclose (toggleConnection True True voice_initial)))))) = {2}
   \<and> stream (fst (snd (toggleConnection True True (toggleConnection True True
        (onclose (toggleConnection True True voice_initial)))))) = None"
  by (simp add: voice_defs)

end
